theory Spec2Isabelle
  imports Main "HOL-Library.Code_Target_Numeral"
begin

section \<open>JavaScript values\<close>

text \<open>
  The handlers of \<^verbatim>\<open>server.js\<close> work on plain JavaScript objects: request bodies,
  the signer objects of \<^verbatim>\<open>activeSigners\<close>, cast records, upstream answers. A value
  is a primitive or an object, an object being its properties in the order JavaScript
  enumerates them. A number is a double: \<open>Num n\<close> is the double whose value is the
  integer \<open>n\<close> (so \<open>n\<close> is an integer a double can hold), beside \<^verbatim>\<open>NaN\<close> and the two
  infinities; fractions, arrays and functions are not values of this model. A string is
  the list of its code units, of which \<open>char\<close> has those below 256. A \<^verbatim>\<open>Date\<close> stored in
  an object is only ever observed through \<^verbatim>\<open>JSON.stringify\<close>, where it is its
  \<^verbatim>\<open>toISOString()\<close> text, so it is carried as that string.
\<close>

datatype jsprim =
  Undefined | Null | Bool bool | Num int | NaN | Infinity | MinusInfinity | Str string

datatype jsval = Prim jsprim | Obj "(string \<times> jsval) list"

type_synonym obj = "(string \<times> jsval) list"

abbreviation undefined_val :: jsval where
  "undefined_val \<equiv> Prim Undefined"

abbreviation str :: "string \<Rightarrow> jsval" where
  "str s \<equiv> Prim (Str s)"

text \<open>Truthiness, as \<^verbatim>\<open>!x\<close>, \<^verbatim>\<open>x && y\<close>, \<^verbatim>\<open>x || y\<close> and \<^verbatim>\<open>if (x)\<close> read it.\<close>

fun truthy_prim :: "jsprim \<Rightarrow> bool" where
  "truthy_prim Undefined = False"
| "truthy_prim Null = False"
| "truthy_prim (Bool b) = b"
| "truthy_prim (Num n) = (n \<noteq> 0)"
| "truthy_prim NaN = False"
| "truthy_prim Infinity = True"
| "truthy_prim MinusInfinity = True"
| "truthy_prim (Str s) = (s \<noteq> [])"

fun truthy :: "jsval \<Rightarrow> bool" where
  "truthy (Prim p) = truthy_prim p"
| "truthy (Obj kvs) = True"

text \<open>
  \<^verbatim>\<open>o.k\<close>: a missing property reads as \<^verbatim>\<open>undefined\<close>. Of the properties of primitives
  only the \<^verbatim>\<open>length\<close> of a string is read by this program; reading a property of
  \<^verbatim>\<open>undefined\<close> or \<^verbatim>\<open>null\<close> throws, which the callers below guard or catch, so
  \<open>nullish\<close> is tested before \<open>read_prop\<close> wherever the source can reach one.
\<close>

definition get :: "obj \<Rightarrow> string \<Rightarrow> jsval" where
  "get kvs k = (case map_of kvs k of None \<Rightarrow> undefined_val | Some v \<Rightarrow> v)"

fun read_prop :: "jsval \<Rightarrow> string \<Rightarrow> jsval" where
  "read_prop (Obj kvs) k = get kvs k"
| "read_prop (Prim (Str s)) k = (if k = ''length'' then Prim (Num (int (length s))) else undefined_val)"
| "read_prop (Prim p) k = undefined_val"

fun nullish :: "jsval \<Rightarrow> bool" where
  "nullish (Prim Undefined) = True"
| "nullish (Prim Null) = True"
| "nullish v = False"

text \<open>
  The message of the \<^verbatim>\<open>TypeError\<close> thrown on reading property \<open>k\<close> of
  \<^verbatim>\<open>undefined\<close> or \<^verbatim>\<open>null\<close>, or on calling a method a value does not have. Its
  wording is the engine's; only that it is thrown matters below.
\<close>

definition type_error :: "string \<Rightarrow> string" where
  "type_error k = ''TypeError: '' @ k"

text \<open>
  \<^verbatim>\<open>{...o, k: v}\<close> and \<^verbatim>\<open>o.k = v\<close>. An existing property keeps its place and takes the
  new value. A new one is appended, unless its name is an array index (the decimal text
  of a number up to \<open>2\<^sup>3\<^sup>2 - 2\<close>): those are enumerated first, in ascending order, so it
  goes before the first property that is not an index or is a greater one.
\<close>

definition index_value :: "string \<Rightarrow> nat" where
  "index_value k = foldl (\<lambda>acc c. acc * 10 + (of_char c - 48)) 0 k"

definition is_index :: "string \<Rightarrow> bool" where
  "is_index k =
     (k \<noteq> [] \<and> list_all (\<lambda>c. c \<in> set ''0123456789'') k
      \<and> (k = ''0'' \<or> hd k \<noteq> CHR ''0'') \<and> index_value k \<le> 4294967294)"

fun replace_field :: "obj \<Rightarrow> string \<Rightarrow> jsval \<Rightarrow> obj" where
  "replace_field [] k v = []"
| "replace_field ((k', v') # kvs) k v =
     (if k' = k then (k, v) # kvs else (k', v') # replace_field kvs k v)"

fun add_field :: "obj \<Rightarrow> string \<Rightarrow> jsval \<Rightarrow> obj" where
  "add_field [] k v = [(k, v)]"
| "add_field ((k', v') # kvs) k v =
     (if is_index k \<and> (\<not> is_index k' \<or> index_value k < index_value k')
      then (k, v) # (k', v') # kvs
      else (k', v') # add_field kvs k v)"

definition set_field :: "obj \<Rightarrow> string \<Rightarrow> jsval \<Rightarrow> obj" where
  "set_field kvs k v =
     (if map_of kvs k = None then add_field kvs k v else replace_field kvs k v)"

fun spread :: "obj \<Rightarrow> obj \<Rightarrow> obj" where
  "spread a [] = a"
| "spread a ((k, v) # kvs) = spread (set_field a k v) kvs"

text \<open>
  \<^verbatim>\<open>a === b\<close>. Primitives compare by value and \<^verbatim>\<open>NaN\<close> equals nothing; an object
  equals only itself, and every comparison of this program has a string literal or a
  freshly received upstream value on one side, so an object never compares equal.
\<close>

fun strict_eq :: "jsval \<Rightarrow> jsval \<Rightarrow> bool" where
  "strict_eq (Prim a) (Prim b) = (a = b \<and> a \<noteq> NaN)"
| "strict_eq a b = False"

text \<open>The decimal digits of a natural number.\<close>

fun digits :: "nat \<Rightarrow> string" where
  "digits n =
     (if n < 10 then [''0123456789'' ! n]
      else digits (n div 10) @ [''0123456789'' ! (n mod 10)])"

declare digits.simps [simp del]

text \<open>
  The double nearest to a natural number, ties going to the even significand of 53 bits;
  \<open>None\<close> when that is \<^verbatim>\<open>Infinity\<close>.
\<close>

fun bit_length :: "nat \<Rightarrow> nat" where
  "bit_length n = (if n = 0 then 0 else Suc (bit_length (n div 2)))"

declare bit_length.simps [simp del]

definition to_double :: "nat \<Rightarrow> nat option" where
  "to_double n =
     (if n < 2 ^ 53 then Some n
      else
        (let e = bit_length n - 53;
             q = n div 2 ^ e;
             r = n mod 2 ^ e;
             half = 2 ^ (e - 1);
             q' = (if r > half \<or> (r = half \<and> odd q) then q + 1 else q)
         in if q' * 2 ^ e \<ge> 2 ^ 1024 then None else Some (q' * 2 ^ e)))"

text \<open>
  \<^verbatim>\<open>Number::toString\<close> for a double of integer value \<open>x\<close>. Its digits are the fewest
  that still denote \<open>x\<close>: the least \<open>k\<close> for which some \<open>s\<close> of \<open>k\<close> digits and some
  \<open>p\<close> have \<open>s \<times> 10\<^sup>p\<close> round to \<open>x\<close>, and of two such \<open>s\<close> the one nearer to \<open>x\<close>
  (the even one when they are equally near). Seventeen digits always suffice. Up to 21
  integer digits the text is these digits followed by zeros; beyond, it is in exponent
  notation. Below \<open>2\<^sup>5\<^sup>3\<close> every integer is a double and its text is its digits.
\<close>

definition decimal_candidates :: "nat \<Rightarrow> nat \<Rightarrow> (nat \<times> nat) list" where
  "decimal_candidates x k =
     (let p = length (digits x) - k; lo = x div 10 ^ p
      in filter (\<lambda>(s, p). to_double (s * 10 ^ p) = Some x) [(lo, p), (lo + 1, p)])"

definition shortest_decimal :: "nat \<Rightarrow> nat \<times> nat" where
  "shortest_decimal x =
     (case List.find (\<lambda>k. decimal_candidates x k \<noteq> []) [1..<18] of
        None \<Rightarrow> (x, 0)
      | Some k \<Rightarrow>
          (case decimal_candidates x k of
             [(lo, p), (hi, p')] \<Rightarrow>
               if x - lo * 10 ^ p < hi * 10 ^ p' - x
                  \<or> (x - lo * 10 ^ p = hi * 10 ^ p' - x \<and> even lo)
               then (lo, p) else (hi, p')
           | [c] \<Rightarrow> c
           | _ \<Rightarrow> (x, 0)))"

definition strip_zeros :: "string \<Rightarrow> string" where
  "strip_zeros ds = rev (dropWhile (\<lambda>c. c = CHR ''0'') (rev ds))"

definition number_text :: "nat \<Rightarrow> string" where
  "number_text x =
     (if x < 2 ^ 53 then digits x
      else
        (case shortest_decimal x of
           (s, p) \<Rightarrow>
             (let ds = digits s; n = length ds + p
              in if n \<le> 21 then ds @ replicate p (CHR ''0'')
                 else
                   (case strip_zeros ds of
                      [] \<Rightarrow> []
                    | d # more \<Rightarrow>
                        d # (if more = [] then [] else CHR ''.'' # more)
                          @ ''e+'' @ digits (n - 1)))))"

definition show_int :: "int \<Rightarrow> string" where
  "show_int n = (if n < 0 then CHR ''-'' # number_text (nat (- n)) else number_text (nat n))"

text \<open>\<^verbatim>\<open>`${x}`\<close>: the text of a value inside a template literal.\<close>

fun template :: "jsval \<Rightarrow> string" where
  "template (Prim Undefined) = ''undefined''"
| "template (Prim Null) = ''null''"
| "template (Prim (Bool b)) = (if b then ''true'' else ''false'')"
| "template (Prim (Num n)) = show_int n"
| "template (Prim NaN) = ''NaN''"
| "template (Prim Infinity) = ''Infinity''"
| "template (Prim MinusInfinity) = ''-Infinity''"
| "template (Prim (Str s)) = s"
| "template (Obj kvs) = ''[object Object]''"

text \<open>
  \<^verbatim>\<open>JSON.parse(JSON.stringify(v))\<close>: what a value is once written to a file and read
  back. A property whose value is \<^verbatim>\<open>undefined\<close> is dropped; \<^verbatim>\<open>NaN\<close> and the
  infinities become \<^verbatim>\<open>null\<close>.
\<close>

fun to_json :: "jsval \<Rightarrow> jsval" where
  "to_json (Prim NaN) = Prim Null"
| "to_json (Prim Infinity) = Prim Null"
| "to_json (Prim MinusInfinity) = Prim Null"
| "to_json (Prim p) = Prim p"
| "to_json (Obj kvs) =
     Obj (map (\<lambda>kv. (fst kv, to_json (snd kv)))
            (filter (\<lambda>kv. snd kv \<noteq> undefined_val) kvs))"

section \<open>Rate limiter (\<^verbatim>\<open>checkRateLimit\<close>)\<close>

text \<open>
  \<^verbatim>\<open>rateLimit\<close> is a \<^verbatim>\<open>Map\<close> from identifier to the array of admitted timestamps;
  \<open>now\<close> is the reading of \<^verbatim>\<open>Date.now()\<close> in milliseconds.
\<close>

type_synonym 'k limiter = "'k \<rightharpoonup> int list"

definition RATE_LIMIT_WINDOW :: int where
  "RATE_LIMIT_WINDOW = 60000"

definition MAX_REQUESTS_PER_WINDOW :: nat where
  "MAX_REQUESTS_PER_WINDOW = 10"

definition checkRateLimit :: "'k \<Rightarrow> int \<Rightarrow> 'k limiter \<Rightarrow> bool \<times> 'k limiter" where
  "checkRateLimit identifier now rateLimit =
     (let windowStart = now - RATE_LIMIT_WINDOW;
          rateLimit1 = (case rateLimit identifier of
                          None \<Rightarrow> rateLimit(identifier \<mapsto> [])
                        | Some _ \<Rightarrow> rateLimit);
          requests = (case rateLimit1 identifier of None \<Rightarrow> [] | Some r \<Rightarrow> r);
          recentRequests = filter (\<lambda>timestamp. timestamp > windowStart) requests
      in if length recentRequests \<ge> MAX_REQUESTS_PER_WINDOW then (False, rateLimit1)
         else (True, rateLimit1(identifier \<mapsto> recentRequests @ [now])))"

text \<open>A run of requests of one identifier, at the given instants, in order.\<close>

fun requests_at :: "'k \<Rightarrow> int list \<Rightarrow> 'k limiter \<Rightarrow> bool list \<times> 'k limiter" where
  "requests_at identifier [] rateLimit = ([], rateLimit)"
| "requests_at identifier (now # later) rateLimit =
     (case checkRateLimit identifier now rateLimit of
        (ok, rateLimit') \<Rightarrow>
          (case requests_at identifier later rateLimit' of
             (oks, rateLimit'') \<Rightarrow> (ok # oks, rateLimit'')))"

section \<open>Flat-file store (\<^verbatim>\<open>database/db.js\<close>)\<close>

text \<open>
  One JSON document per file, in one of three directories. A path is the directory
  and the file name given to \<^verbatim>\<open>path.join\<close> (names are taken without separators). A
  file holds a document, or something \<^verbatim>\<open>readFileSync\<close> or \<^verbatim>\<open>JSON.parse\<close> throws on.
  \<open>read_only\<close> tells where \<^verbatim>\<open>writeFileSync\<close> and \<^verbatim>\<open>unlinkSync\<close> throw.
\<close>

datatype directory = USERS_DIR | POSTS_DIR | SESSIONS_DIR

type_synonym path = "directory \<times> string"

datatype file_content = Json jsval | Unreadable

record disk =
  files :: "path \<rightharpoonup> file_content"
  read_only :: "path \<Rightarrow> bool"

text \<open>A reading of the clock: \<^verbatim>\<open>Date.now()\<close> and \<^verbatim>\<open>new Date().toISOString()\<close>.\<close>

record clock =
  millis :: int
  iso :: string

definition readJsonFile :: "path \<Rightarrow> disk \<Rightarrow> jsval" where
  "readJsonFile filePath d =
     (case files d filePath of
        None \<Rightarrow> Prim Null
      | Some (Json v) \<Rightarrow> v
      | Some Unreadable \<Rightarrow> Prim Null)"

definition writeJsonFile :: "path \<Rightarrow> obj \<Rightarrow> disk \<Rightarrow> bool \<times> disk" where
  "writeJsonFile filePath data d =
     (if read_only d filePath then (False, d)
      else (True, d\<lparr>files := (files d)(filePath \<mapsto> Json (to_json (Obj data)))\<rparr>))"

text \<open>
  \<^verbatim>\<open>{...x}\<close> of a value: the properties of an object, the indexed characters of a
  string, nothing for the other primitives.
\<close>

fun own_props :: "jsval \<Rightarrow> obj" where
  "own_props (Obj kvs) = kvs"
| "own_props (Prim (Str s)) = zip (map digits [0..<length s]) (map (\<lambda>c. str [c]) s)"
| "own_props (Prim p) = []"

text \<open>
  \<^verbatim>\<open>saveUser\<close> reads \<^verbatim>\<open>userData.fid\<close> before anything else, which throws when
  \<^verbatim>\<open>userData\<close> is \<^verbatim>\<open>null\<close> or \<^verbatim>\<open>undefined\<close>: \<open>Inl\<close> is that error's message.
\<close>

definition saveUser :: "jsval \<Rightarrow> clock \<Rightarrow> disk \<Rightarrow> string + bool \<times> disk" where
  "saveUser userData clk d =
     (if nullish userData then Inl (type_error ''fid'')
      else Inr (writeJsonFile (USERS_DIR, template (read_prop userData ''fid'') @ ''.json'')
                  (set_field (own_props userData) ''updatedAt'' (str (iso clk))) d))"

definition getUser :: "jsval \<Rightarrow> disk \<Rightarrow> jsval" where
  "getUser fid d = readJsonFile (USERS_DIR, template fid @ ''.json'') d"

text \<open>\<^verbatim>\<open>s.replace(pat, rep)\<close> with a string pattern: the first occurrence only.\<close>

fun replace_first :: "string \<Rightarrow> string \<Rightarrow> string \<Rightarrow> string" where
  "replace_first [] pat rep = (if pat = [] then rep else [])"
| "replace_first (c # cs) pat rep =
     (if take (length pat) (c # cs) = pat then rep @ drop (length pat) (c # cs)
      else c # replace_first cs pat rep)"

definition savePost :: "obj \<Rightarrow> clock \<Rightarrow> disk \<Rightarrow> bool \<times> disk" where
  "savePost postData clk d =
     (let timestamp = millis clk;
          fileName = show_int timestamp @ ''_'' @ template (get postData ''hash'') @ ''.json'';
          filePath = (POSTS_DIR, fileName);
          postRecord = spread postData
            [(''id'', str (replace_first fileName ''.json'' [])),
             (''createdAt'', str (iso clk)),
             (''timestamp'', Prim (Num timestamp))]
      in writeJsonFile filePath postRecord d)"

definition saveSession :: "obj \<Rightarrow> clock \<Rightarrow> disk \<Rightarrow> bool \<times> disk" where
  "saveSession sessionData clk d =
     writeJsonFile (SESSIONS_DIR, template (get sessionData ''signerUuid'') @ ''.json'')
       (set_field sessionData ''updatedAt'' (str (iso clk))) d"

definition getSession :: "jsval \<Rightarrow> disk \<Rightarrow> jsval" where
  "getSession signerUuid d = readJsonFile (SESSIONS_DIR, template signerUuid @ ''.json'') d"

definition updateSession :: "jsval \<Rightarrow> obj \<Rightarrow> clock \<Rightarrow> disk \<Rightarrow> bool \<times> disk" where
  "updateSession signerUuid updates clk d =
     (let session = getSession signerUuid d
      in if truthy session then
           (let updatedSession =
                  set_field (spread (own_props session) updates) ''updatedAt'' (str (iso clk))
            in saveSession updatedSession clk d)
         else (False, d))"

definition deleteSession :: "jsval \<Rightarrow> disk \<Rightarrow> bool \<times> disk" where
  "deleteSession signerUuid d =
     (let filePath = (SESSIONS_DIR, template signerUuid @ ''.json'')
      in if files d filePath \<noteq> None then
           (if read_only d filePath then (False, d)
            else (True, d\<lparr>files := (files d)(filePath := None)\<rparr>))
         else (False, d))"

section \<open>Upstream services\<close>

text \<open>
  The managed SDK (\<^verbatim>\<open>neynarClient\<close>) and \<^verbatim>\<open>fetch\<close> are the program's collaborators.
  Each call either throws, which is \<open>Inl\<close> of the error's message, or returns.
  \<open>neynarClient\<close> tells whether the client was configured (it is \<^verbatim>\<open>null\<close> without
  \<^verbatim>\<open>NEYNAR_API_KEY\<close>). \<^verbatim>\<open>fetchBulkUsers\<close> answers with the \<^verbatim>\<open>users\<close> array, a missing
  array being the empty one.
\<close>

record http_response =
  ok :: bool
  status :: nat
  json :: "string + jsval"

record upstream =
  neynarClient :: bool
  getSigner :: "jsval \<Rightarrow> string + jsval"
  publishCast :: "obj \<Rightarrow> string + jsval"
  fetchBulkUsers :: "jsval \<Rightarrow> string + jsval list"
  fetch :: "string \<Rightarrow> string + http_response"

definition FARCASTER_API_BASE :: string where
  "FARCASTER_API_BASE = ''https://api.farcaster.xyz''"

text \<open>\<^verbatim>\<open>FarcasterSignerManager.checkSignedKeyRequestStatus\<close> (\<^verbatim>\<open>farcaster-signer.js\<close>).\<close>

definition checkSignedKeyRequestStatus :: "upstream \<Rightarrow> jsval \<Rightarrow> string + jsval" where
  "checkSignedKeyRequestStatus up token =
     (let rethrown = (\<lambda>message. Inl (''Failed to check status: '' @ message))
      in case fetch up (FARCASTER_API_BASE @ ''/v2/signed-key-request?token='' @ template token) of
           Inl message \<Rightarrow> rethrown message
         | Inr response \<Rightarrow>
             if \<not> ok response then
               rethrown (''Status check failed: '' @ digits (status response))
             else
               (case json response of
                  Inl message \<Rightarrow> rethrown message
                | Inr data \<Rightarrow>
                    if nullish data then rethrown (type_error ''result'')
                    else if nullish (read_prop data ''result'') then
                      rethrown (type_error ''signedKeyRequest'')
                    else
                      (let signedKeyRequest =
                             read_prop (read_prop data ''result'') ''signedKeyRequest''
                       in if nullish signedKeyRequest then rethrown (type_error ''state'')
                          else Inr signedKeyRequest)))"

text \<open>
  \<^verbatim>\<open>parseInt(x)\<close> reads the text of \<open>x\<close>: leading white space, a sign, then
  hexadecimal digits after \<^verbatim>\<open>0x\<close> and decimal digits otherwise, as many as there are;
  \<^verbatim>\<open>NaN\<close> when no digit follows. The result is the double nearest to the integer read.
  Of the white space of JavaScript, the tab, the line feed, the vertical tab, the form
  feed, the carriage return, the space and the no-break space are code units below 256.
\<close>

definition is_space :: "char \<Rightarrow> bool" where
  "is_space c =
     (c \<in> set [CHR '' '', CHR 0x09, CHR 0x0A, CHR 0x0B, CHR 0x0C, CHR 0x0D, CHR 0xA0])"

definition digit_value :: "char \<Rightarrow> nat option" where
  "digit_value c =
     (let n = (of_char c :: nat)
      in if 48 \<le> n \<and> n \<le> 57 then Some (n - 48)
         else if 97 \<le> n \<and> n \<le> 122 then Some (n - 87)
         else if 65 \<le> n \<and> n \<le> 90 then Some (n - 55)
         else None)"

definition is_digit :: "nat \<Rightarrow> char \<Rightarrow> bool" where
  "is_digit radix c = (case digit_value c of None \<Rightarrow> False | Some v \<Rightarrow> v < radix)"

definition parse_digits :: "nat \<Rightarrow> string \<Rightarrow> jsprim" where
  "parse_digits radix s =
     (let ds = takeWhile (is_digit radix) s
      in if ds = [] then NaN
         else
           (case to_double
                   (foldl (\<lambda>acc c. acc * radix + (case digit_value c of None \<Rightarrow> 0 | Some v \<Rightarrow> v))
                      0 ds) of
              None \<Rightarrow> Infinity
            | Some d \<Rightarrow> Num (int d)))"

definition negate :: "jsprim \<Rightarrow> jsprim" where
  "negate p = (case p of Num n \<Rightarrow> Num (- n) | Infinity \<Rightarrow> MinusInfinity | _ \<Rightarrow> p)"

definition parse_unsigned :: "string \<Rightarrow> jsprim" where
  "parse_unsigned s =
     (if take 2 s = ''0x'' \<or> take 2 s = ''0X'' then parse_digits 16 (drop 2 s)
      else parse_digits 10 s)"

definition parseInt_string :: "string \<Rightarrow> jsprim" where
  "parseInt_string s =
     (let t = dropWhile is_space s
      in case t of
           [] \<Rightarrow> NaN
         | c # cs \<Rightarrow>
             if c = CHR ''-'' then negate (parse_unsigned cs)
             else if c = CHR ''+'' then parse_unsigned cs
             else parse_unsigned t)"

definition parseInt :: "jsprim \<Rightarrow> jsprim" where
  "parseInt x = parseInt_string (template (Prim x))"


section \<open>HTTP handlers (\<^verbatim>\<open>server.js\<close>)\<close>

text \<open>
  The process state: the \<^verbatim>\<open>activeSigners\<close> map, the \<^verbatim>\<open>rateLimit\<close> map and the
  files of the store. A request carries the fields of its JSON body, each a primitive
  and \<^verbatim>\<open>undefined\<close> when missing, and the client address (\<^verbatim>\<open>req.ip ||
  req.connection.remoteAddress\<close>). A response is the status code and the object given
  to \<^verbatim>\<open>res.json\<close>; its purely advisory texts (\<^verbatim>\<open>message\<close>, \<^verbatim>\<open>note\<close>, \<^verbatim>\<open>nextStep\<close>,
  \<^verbatim>\<open>instructions\<close>, \<^verbatim>\<open>suggestion\<close>) are left out. A handler reads the clock once.
\<close>

record server =
  activeSigners :: "jsprim \<rightharpoonup> obj"
  rateLimit :: "string limiter"
  store :: disk

record request =
  body :: "string \<Rightarrow> jsprim"
  clientIP :: string

record response =
  code :: nat
  payload :: obj

definition reply :: "nat \<Rightarrow> obj \<Rightarrow> response" where
  "reply c p = \<lparr>code = c, payload = p\<rparr>"

definition failure :: "nat \<Rightarrow> string \<Rightarrow> response" where
  "failure c e = reply c [(''error'', str e)]"

subsection \<open>\<^verbatim>\<open>POST /api/create-signer\<close>\<close>

definition create_signer :: "clock \<Rightarrow> request \<Rightarrow> server \<Rightarrow> response \<times> server" where
  "create_signer clk req s =
     (let fid = body req ''fid''; signerUuid = body req ''signerUuid''
      in if \<not> truthy_prim fid \<or> \<not> truthy_prim signerUuid then
           (failure 400 ''FID and signerUuid are required for SIWN flow'', s)
         else
           (let fidNum = parseInt fid
            in case checkRateLimit (clientIP req) (millis clk) (rateLimit s) of
                 (admitted, rateLimit') \<Rightarrow>
                   (let s1 = s\<lparr>rateLimit := rateLimit'\<rparr>
                    in if \<not> admitted then
                         (failure 429 ''Rate limit exceeded. Please try again later.'', s1)
                       else
                         (let signerInfo =
                                [(''signerUuid'', Prim signerUuid),
                                 (''status'', str ''approved''),
                                 (''fid'', Prim fidNum),
                                 (''createdAt'', str (iso clk)),
                                 (''provider'', str ''neynar_siwn'')];
                              s2 = s1\<lparr>activeSigners := (activeSigners s1)(signerUuid \<mapsto> signerInfo)\<rparr>;
                              s3 = s2\<lparr>store := snd (saveSession signerInfo clk (store s2))\<rparr>
                          in (reply 200
                                [(''success'', Prim (Bool True)),
                                 (''signer'', Obj signerInfo),
                                 (''provider'', str ''neynar_siwn'')], s3)))))"

subsection \<open>\<^verbatim>\<open>GET /api/signer-status/:signerUuid\<close>\<close>

text \<open>
  The two \<^verbatim>\<open>try\<close> blocks of the handler. Each gives \<open>None\<close> when its \<^verbatim>\<open>catch\<close> ran:
  the error is logged and the handler goes on.
\<close>

definition status_neynar ::
  "upstream \<Rightarrow> clock \<Rightarrow> string \<Rightarrow> obj \<Rightarrow> server \<Rightarrow> (response \<times> server) option" where
  "status_neynar up clk signerUuid signer s =
     (case getSigner up (str signerUuid) of
        Inl message \<Rightarrow> None
      | Inr neynarSigner \<Rightarrow>
          if nullish neynarSigner then None
          else
            (let signerInfo = spread signer
                   [(''status'', read_prop neynarSigner ''status''),
                    (''updatedAt'', str (iso clk))];
                 s1 = s\<lparr>activeSigners := (activeSigners s)(Str signerUuid \<mapsto> signerInfo)\<rparr>;
                 s2 = s1\<lparr>store := snd (updateSession (get signer ''signer_uuid'') signerInfo clk (store s1))\<rparr>
             in Some (reply 200
                        [(''success'', Prim (Bool True)),
                         (''signer'', Obj signerInfo)], s2)))"

definition status_direct ::
  "upstream \<Rightarrow> clock \<Rightarrow> string \<Rightarrow> obj \<Rightarrow> server \<Rightarrow> (response \<times> server) option" where
  "status_direct up clk signerUuid signer s =
     (case checkSignedKeyRequestStatus up (get signer ''token'') of
        Inl message \<Rightarrow> None
      | Inr realStatus \<Rightarrow>
          (let state = read_prop realStatus ''state'';
               userFid = read_prop realStatus ''userFid'';
               changed = (\<not> strict_eq state (get signer ''status''));
               signer1 =
                 (if changed then
                    (if truthy userFid
                     then set_field (set_field signer ''status'' state) ''fid'' userFid
                     else set_field signer ''status'' state)
                  else signer);
               s1 = s\<lparr>activeSigners := (activeSigners s)(Str signerUuid \<mapsto> signer1)\<rparr>;
               s2 = (if changed
                     then s1\<lparr>store := snd (updateSession (str signerUuid) signer1 clk (store s1))\<rparr>
                     else s1)
           in Some (reply 200
                      [(''success'', Prim (Bool True)),
                       (''signer'', Obj signer1),
                       (''status'', get signer1 ''status''),
                       (''provider'', get signer1 ''provider''),
                       (''realTimeStatus'', realStatus)], s2)))"

definition signer_status :: "upstream \<Rightarrow> clock \<Rightarrow> string \<Rightarrow> server \<Rightarrow> response \<times> server" where
  "signer_status up clk signerUuid s =
     (case activeSigners s (Str signerUuid) of
        None \<Rightarrow> (failure 404 ''Signer not found'', s)
      | Some signer \<Rightarrow>
          (case (if strict_eq (get signer ''provider'') (str ''neynar'') \<and> neynarClient up
                 then status_neynar up clk signerUuid signer s else None) of
             Some answered \<Rightarrow> answered
           | None \<Rightarrow>
               (case (if strict_eq (get signer ''provider'') (str ''direct_farcaster'')
                         \<and> truthy (get signer ''token'')
                      then status_direct up clk signerUuid signer s else None) of
                  Some answered \<Rightarrow> answered
                | None \<Rightarrow>
                    (reply 200
                       [(''success'', Prim (Bool True)),
                        (''signer'', Obj signer),
                        (''status'', get signer ''status''),
                        (''provider'', get signer ''provider'')], s))))"


subsection \<open>\<^verbatim>\<open>POST /api/post-cast\<close>\<close>

text \<open>
  \<^verbatim>\<open>text.length > 320\<close> for a truthy primitive: a number or \<^verbatim>\<open>true\<close> has no
  \<^verbatim>\<open>length\<close>, and \<^verbatim>\<open>undefined > 320\<close> is false.
\<close>

fun length_exceeds :: "jsprim \<Rightarrow> nat \<Rightarrow> bool" where
  "length_exceeds (Str s) n = (length s > n)"
| "length_exceeds p n = False"

text \<open>\<^verbatim>\<open>x || y\<close>.\<close>

definition or_else :: "jsprim \<Rightarrow> jsprim \<Rightarrow> jsprim" where
  "or_else x y = (if truthy_prim x then x else y)"

text \<open>Signers of \<^verbatim>\<open>provider === 'neynar_siwn'\<close>.\<close>

definition post_siwn :: "upstream \<Rightarrow> clock \<Rightarrow> jsprim \<Rightarrow> obj \<Rightarrow> server \<Rightarrow> response \<times> server" where
  "post_siwn up clk text signer s =
     (if neynarClient up then
        (case publishCast up [(''signerUuid'', get signer ''signerUuid''), (''text'', Prim text)] of
           Inl message \<Rightarrow>
             (reply 500 [(''error'', str ''Failed to post cast via Neynar''),
                         (''details'', str message)], s)
         | Inr cast \<Rightarrow>
             if nullish cast then
               (reply 500 [(''error'', str ''Failed to post cast via Neynar''),
                           (''details'', str (type_error ''hash''))], s)
             else
               (let castInfo =
                      [(''hash'', read_prop cast ''hash''),
                       (''text'', read_prop cast ''text''),
                       (''signerUuid'', get signer ''signerUuid''),
                       (''fid'', get signer ''fid''),
                       (''timestamp'', str (iso clk)),
                       (''provider'', str ''neynar_siwn'')];
                    s1 = s\<lparr>store := snd (savePost castInfo clk (store s))\<rparr>
                in (reply 200 [(''success'', Prim (Bool True)),
                               (''cast'', Obj castInfo),
                               (''provider'', str ''neynar_siwn'')], s1)))
      else (failure 500 ''Neynar client not available'', s))"

text \<open>Signers of \<^verbatim>\<open>provider === 'direct_farcaster'\<close>.\<close>

definition post_direct ::
  "upstream \<Rightarrow> clock \<Rightarrow> jsprim \<Rightarrow> jsprim \<Rightarrow> jsprim \<Rightarrow> obj \<Rightarrow> server \<Rightarrow> response \<times> server" where
  "post_direct up clk signerUuid text parentUrl signer s =
     (if \<not> truthy (get signer ''keypair'')
         \<or> \<not> truthy (read_prop (get signer ''keypair'') ''privateKey'') then
        (reply 400 [(''error'', str ''Ed25519 keys not found''),
                    (''currentStatus'', get signer ''status'')], s)
      else if truthy (get signer ''token'') then
        (case checkSignedKeyRequestStatus up (get signer ''token'') of
           Inl message \<Rightarrow>
             (reply 500 [(''error'', str ''Failed to verify signer status''),
                         (''details'', str message)], s)
         | Inr live \<Rightarrow>
             if strict_eq (read_prop live ''state'') (str ''completed'') then
               (case get signer ''publicKey'' of
                  Prim (Str publicKey) \<Rightarrow>
                    (let castInfo =
                           [(''hash'', str ''pending_hub_submission''),
                            (''text'', Prim text),
                            (''signerUuid'', Prim signerUuid),
                            (''fid'', get signer ''fid''),
                            (''timestamp'', str (iso clk)),
                            (''parentUrl'', Prim (or_else parentUrl Null)),
                            (''provider'', str ''direct_farcaster''),
                            (''status'', str ''ready_for_hub_submission''),
                            (''note'', str ''Ed25519 keys approved! Cast is ready to submit to Farcaster hub.''),
                            (''nextStep'', str ''Implement cast submission to Farcaster hub using @farcaster/hub-nodejs'')];
                         s1 = s\<lparr>store := snd (savePost castInfo clk (store s))\<rparr>
                     in (reply 200 [(''success'', Prim (Bool True)),
                                    (''cast'', Obj castInfo),
                                    (''provider'', str ''direct_farcaster'')], s1))
                | _ \<Rightarrow>
                    (reply 500 [(''error'', str ''Failed to verify signer status''),
                                (''details'', str (type_error ''substring''))], s))
             else if strict_eq (read_prop live ''state'') (str ''approved'') then
               (reply 400 [(''error'', str ''Signer approved, waiting for on-chain confirmation''),
                           (''currentStatus'', read_prop live ''state''),
                           (''approvalUrl'', get signer ''approvalUrl'')], s)
             else
               (reply 400 [(''error'', str ''Signer not fully approved''),
                           (''currentStatus'', read_prop live ''state''),
                           (''approvalUrl'', get signer ''approvalUrl'')], s))
      else
        (reply 400 [(''error'', str ''Signer token missing''),
                    (''currentStatus'', get signer ''status'')], s))"

text \<open>Signers of \<^verbatim>\<open>provider === 'neynar'\<close>, when the client is configured.\<close>

definition post_neynar ::
  "upstream \<Rightarrow> clock \<Rightarrow> jsprim \<Rightarrow> jsprim \<Rightarrow> jsprim \<Rightarrow> obj \<Rightarrow> server \<Rightarrow> response \<times> server" where
  "post_neynar up clk signerUuid text parentUrl signer s =
     (case publishCast up
             [(''signerUuid'', Prim signerUuid),
              (''text'', Prim text),
              (''parentUrl'', Prim (or_else parentUrl Undefined))] of
        Inl message \<Rightarrow>
          (reply 500 [(''error'', str ''Neynar posting failed, but Direct API is available''),
                      (''details'', str message)], s)
      | Inr cast \<Rightarrow>
          if nullish cast then
            (reply 500 [(''error'', str ''Neynar posting failed, but Direct API is available''),
                        (''details'', str (type_error ''hash''))], s)
          else
            (let castInfo =
                   [(''hash'', read_prop cast ''hash''),
                    (''text'', read_prop cast ''text''),
                    (''signerUuid'', Prim signerUuid),
                    (''fid'', get signer ''fid''),
                    (''timestamp'', str (iso clk)),
                    (''parentUrl'', Prim (or_else parentUrl Null)),
                    (''provider'', str ''neynar'')];
                 s1 = s\<lparr>store := snd (savePost castInfo clk (store s))\<rparr>
             in (reply 200 [(''success'', Prim (Bool True)),
                            (''cast'', Obj castInfo),
                            (''provider'', str ''neynar'')], s1)))"

definition post_cast :: "upstream \<Rightarrow> clock \<Rightarrow> request \<Rightarrow> server \<Rightarrow> response \<times> server" where
  "post_cast up clk req s =
     (let signerUuid = body req ''signerUuid'';
          text = body req ''text'';
          parentUrl = body req ''parentUrl''
      in if \<not> truthy_prim signerUuid \<or> \<not> truthy_prim text then
           (failure 400 ''Signer UUID and text are required'', s)
         else
           (case checkRateLimit (clientIP req) (millis clk) (rateLimit s) of
              (admitted, rateLimit') \<Rightarrow>
                (let s1 = s\<lparr>rateLimit := rateLimit'\<rparr>
                 in if \<not> admitted then
                      (failure 429 ''Rate limit exceeded. Please try again later.'', s1)
                    else if length_exceeds text 320 then
                      (failure 400 ''Cast text must be 320 characters or less'', s1)
                    else
                      (case activeSigners s1 signerUuid of
                         None \<Rightarrow> (failure 400 ''Signer not found'', s1)
                       | Some signer \<Rightarrow>
                           if \<not> strict_eq (get signer ''status'') (str ''approved'') then
                             (failure 400
                                ''Signer not approved yet. Please complete the approval process first.'',
                              s1)
                           else if strict_eq (get signer ''provider'') (str ''neynar_siwn'') then
                             post_siwn up clk text signer s1
                           else if strict_eq (get signer ''provider'') (str ''direct_farcaster'') then
                             post_direct up clk signerUuid text parentUrl signer s1
                           else if strict_eq (get signer ''provider'') (str ''neynar'')
                                   \<and> neynarClient up then
                             post_neynar up clk signerUuid text parentUrl signer s1
                           else (failure 400 ''Unknown signer provider'', s1)))))"

subsection \<open>\<^verbatim>\<open>GET /api/user/:fid\<close>\<close>

text \<open>
  The lookup keeps a log of the upstream reads it makes. A read goes through
  \<open>fetch_logged\<close> or \<open>fetchBulkUsers_logged\<close>, which hands back the answer together with
  the log extended by the read, so an answer cannot be had without its entry and an entry
  is not written without the read.
\<close>

datatype upstream_call = Fetch string | FetchBulkUsers jsval

definition fetch_logged ::
  "upstream \<Rightarrow> string \<Rightarrow> upstream_call list \<Rightarrow> (string + http_response) \<times> upstream_call list" where
  "fetch_logged up url calls = (fetch up url, calls @ [Fetch url])"

definition fetchBulkUsers_logged ::
  "upstream \<Rightarrow> jsval \<Rightarrow> upstream_call list \<Rightarrow> (string + jsval list) \<times> upstream_call list" where
  "fetchBulkUsers_logged up fid calls = (fetchBulkUsers up fid, calls @ [FetchBulkUsers fid])"

text \<open>
  The first \<^verbatim>\<open>try\<close> block up to the user it found: \<open>None\<close> when \<^verbatim>\<open>fetch\<close> or
  \<^verbatim>\<open>response.json()\<close> threw (the \<^verbatim>\<open>catch\<close> logs it), the response was not \<^verbatim>\<open>ok\<close> or
  \<^verbatim>\<open>data.result.user\<close> is missing.
\<close>

definition user_url :: "string \<Rightarrow> string" where
  "user_url fid = FARCASTER_API_BASE @ ''/v2/user?fid='' @ fid"

definition direct_user ::
  "upstream \<Rightarrow> string \<Rightarrow> upstream_call list \<Rightarrow> jsval option \<times> upstream_call list" where
  "direct_user up fid calls =
     (case fetch_logged up (user_url fid) calls of
        (answer, calls') \<Rightarrow>
          (case answer of
             Inl message \<Rightarrow> (None, calls')
           | Inr response \<Rightarrow>
               if ok response then
                 (case json response of
                    Inl message \<Rightarrow> (None, calls')
                  | Inr data \<Rightarrow>
                      if nullish data then (None, calls')
                      else if truthy (read_prop data ''result'')
                              \<and> truthy (read_prop (read_prop data ''result'') ''user'')
                      then (Some (read_prop (read_prop data ''result'') ''user''), calls')
                      else (None, calls'))
               else (None, calls')))"

definition both_failed :: response where
  "both_failed =
     reply 500 [(''error'', str ''Failed to fetch user''),
                (''details'', str ''Both Direct Farcaster API and Neynar failed to fetch user'')]"

text \<open>The part of the handler after the direct read: the SDK, when it is configured.\<close>

definition neynar_fallback ::
  "upstream \<Rightarrow> clock \<Rightarrow> string \<Rightarrow> upstream_call list \<Rightarrow> server \<Rightarrow>
   response \<times> upstream_call list \<times> server" where
  "neynar_fallback up clk fid calls s =
     (if neynarClient up then
        (case fetchBulkUsers_logged up (Prim (parseInt (Str fid))) calls of
           (answer, calls') \<Rightarrow>
             (case answer of
                Inl message \<Rightarrow> (both_failed, calls', s)
              | Inr users \<Rightarrow>
                  (case users of
                     [] \<Rightarrow> (both_failed, calls', s)
                   | user # others \<Rightarrow>
                       (case saveUser user clk (store s) of
                          Inl message \<Rightarrow> (both_failed, calls', s)
                        | Inr (written, d) \<Rightarrow>
                            (reply 200 [(''success'', Prim (Bool True)),
                                        (''user'', user),
                                        (''provider'', str ''neynar'')],
                             calls',
                             s\<lparr>store := d\<rparr>)))))
      else (both_failed, calls, s))"

definition get_user ::
  "upstream \<Rightarrow> clock \<Rightarrow> string \<Rightarrow> server \<Rightarrow> response \<times> upstream_call list \<times> server" where
  "get_user up clk fid s =
     (case direct_user up fid [] of
        (found, calls) \<Rightarrow>
          (case found of
             Some user \<Rightarrow>
               (case saveUser user clk (store s) of
                  Inl message \<Rightarrow> neynar_fallback up clk fid calls s
                | Inr (written, d) \<Rightarrow>
                    (reply 200 [(''success'', Prim (Bool True)),
                                (''user'', user),
                                (''provider'', str ''direct_farcaster'')],
                     calls,
                     s\<lparr>store := d\<rparr>))
           | None \<Rightarrow> neynar_fallback up clk fid calls s))"


subsection \<open>Repeated publish calls\<close>



section \<open>The states a run reaches\<close>




section \<open>Sample inputs\<close>

text \<open>
  Concrete inputs on which the properties below are exercised: an upstream where every
  call fails, one that reports the key request as completed for account 42, one that
  moreover publishes through the SDK, one where only the SDK or only the direct API knows
  account 42, an empty store, two clock readings a minute apart,
  a publish request, a create request, and servers holding one signer under the id
  \<^verbatim>\<open>s1\<close>.
\<close>

definition offline :: upstream where
  "offline = \<lparr>neynarClient = False,
              getSigner = (\<lambda>x. Inl ''network down''),
              publishCast = (\<lambda>x. Inl ''network down''),
              fetchBulkUsers = (\<lambda>x. Inl ''network down''),
              fetch = (\<lambda>x. Inl ''network down'')\<rparr>"

definition completed_upstream :: upstream where
  "completed_upstream = offline
     \<lparr>fetch := (\<lambda>url. Inr \<lparr>ok = True, status = 200,
         json = Inr (Obj [(''result'', Obj [(''signedKeyRequest'',
                   Obj [(''state'', str ''completed''), (''userFid'', Prim (Num 42))])])])\<rparr>)\<rparr>"


definition sdk_only :: upstream where
  "sdk_only = offline
     \<lparr>neynarClient := True,
      fetchBulkUsers := (\<lambda>fids. Inr [Obj [(''fid'', Prim (Num 42)), (''username'', str ''alice'')]])\<rparr>"

definition direct_profiles :: upstream where
  "direct_profiles = offline
     \<lparr>fetch := (\<lambda>url. if url = user_url ''42''
         then Inr \<lparr>ok = True, status = 200,
                json = Inr (Obj [(''result'', Obj [(''user'',
                          Obj [(''fid'', Prim (Num 42)), (''username'', str ''alice'')])])])\<rparr>
         else Inl ''network down'')\<rparr>"

definition empty_disk :: disk where
  "empty_disk = \<lparr>files = Map.empty, read_only = (\<lambda>p. False)\<rparr>"

definition noon :: clock where
  "noon = \<lparr>millis = 1735732800000, iso = ''2025-01-01T12:00:00.000Z''\<rparr>"

definition minute_later :: clock where
  "minute_later = \<lparr>millis = 1735732860000, iso = ''2025-01-01T12:01:00.000Z''\<rparr>"

definition cast_request :: "string \<Rightarrow> string \<Rightarrow> request" where
  "cast_request signerUuid text =
     \<lparr>body = (\<lambda>k. Undefined)(''signerUuid'' := Str signerUuid, ''text'' := Str text),
      clientIP = ''203.0.113.7''\<rparr>"


definition idle_server :: server where
  "idle_server = \<lparr>activeSigners = Map.empty, rateLimit = Map.empty, store = empty_disk\<rparr>"

definition server_with :: "obj \<Rightarrow> server" where
  "server_with signer = idle_server\<lparr>activeSigners := [Str ''s1'' \<mapsto> signer]\<rparr>"

definition saturated :: "server \<Rightarrow> server" where
  "saturated s = s\<lparr>rateLimit := [''203.0.113.7'' \<mapsto>
     [1735732790001, 1735732790002, 1735732790003, 1735732790004, 1735732790005,
      1735732790006, 1735732790007, 1735732790008, 1735732790009, 1735732790010]]\<rparr>"

definition managed_signer :: "string \<Rightarrow> obj" where
  "managed_signer st =
     [(''signerUuid'', str ''s1''),
      (''status'', str st),
      (''fid'', Prim (Num 42)),
      (''createdAt'', str ''2025-01-01T11:00:00.000Z''),
      (''provider'', str ''neynar'')]"

definition direct_signer :: "string \<Rightarrow> jsval \<Rightarrow> obj" where
  "direct_signer st keys =
     [(''signerUuid'', str ''s1''),
      (''publicKey'', str ''0x5a1f''),
      (''status'', str st),
      (''approvalUrl'', str ''farcaster://signed-key-request?token=0xt0''),
      (''fid'', Prim (Num 42)),
      (''createdAt'', str ''2025-01-01T11:00:00.000Z''),
      (''provider'', str ''direct_farcaster''),
      (''token'', str ''0xt0''),
      (''keypair'', keys)]"

definition ed25519_keys :: jsval where
  "ed25519_keys = Obj [(''privateKey'', str ''9d61b1''), (''publicKey'', str ''0x5a1f'')]"


section \<open>Properties\<close>

subsection \<open>Rate limiter\<close>

lemma checkRateLimit_admits:
  assumes "(case limits identifier of None \<Rightarrow> [] | Some r \<Rightarrow> r) = reqs"
    and "length reqs < MAX_REQUESTS_PER_WINDOW"
    and "\<forall>r\<in>set reqs. now - RATE_LIMIT_WINDOW < r"
  shows "checkRateLimit identifier now limits = (True, limits(identifier \<mapsto> reqs @ [now]))"
proof -
  have keep: "filter (\<lambda>timestamp. now - RATE_LIMIT_WINDOW < timestamp) reqs = reqs"
    using assms(3) by (simp add: filter_id_conv)
  show ?thesis
    using assms(1,2) keep
    by (auto simp: checkRateLimit_def Let_def split: option.splits)
qed

lemma checkRateLimit_rejects:
  assumes "limits identifier = Some reqs"
    and "MAX_REQUESTS_PER_WINDOW \<le> length reqs"
    and "\<forall>r\<in>set reqs. now - RATE_LIMIT_WINDOW < r"
  shows "checkRateLimit identifier now limits = (False, limits)"
proof -
  have keep: "filter (\<lambda>timestamp. now - RATE_LIMIT_WINDOW < timestamp) reqs = reqs"
    using assms(3) by (simp add: filter_id_conv)
  show ?thesis
    using assms(1,2) keep by (simp add: checkRateLimit_def Let_def)
qed

lemma requests_at_admitted:
  assumes "(case limits identifier of None \<Rightarrow> [] | Some r \<Rightarrow> r) = reqs"
    and "length reqs + length ts \<le> MAX_REQUESTS_PER_WINDOW"
    and "\<forall>t\<in>set (reqs @ ts). T - RATE_LIMIT_WINDOW < t \<and> t \<le> T"
    and "ts \<noteq> []"
  shows "requests_at identifier ts limits =
           (replicate (length ts) True, limits(identifier \<mapsto> reqs @ ts))"
  using assms
proof (induction ts arbitrary: limits reqs)
  case Nil
  then show ?case by simp
next
  case (Cons t ts)
  have in_window: "\<forall>r\<in>set reqs. t - RATE_LIMIT_WINDOW < r"
  proof
    fix r assume "r \<in> set reqs"
    with Cons.prems(3) have "T - RATE_LIMIT_WINDOW < r" and "t \<le> T" by auto
    then show "t - RATE_LIMIT_WINDOW < r" by linarith
  qed
  have step: "checkRateLimit identifier t limits = (True, limits(identifier \<mapsto> reqs @ [t]))"
    using Cons.prems(1,2) in_window by (intro checkRateLimit_admits) auto
  show ?case
  proof (cases "ts = []")
    case True
    then show ?thesis using step by (simp add: fun_upd_def)
  next
    case False
    have rest: "requests_at identifier ts (limits(identifier \<mapsto> reqs @ [t])) =
            (replicate (length ts) True, (limits(identifier \<mapsto> reqs @ [t]))(identifier \<mapsto> (reqs @ [t]) @ ts))"
      using Cons.prems(2,3) False by (intro Cons.IH) auto
    show ?thesis using step rest by (auto simp: fun_upd_def)
  qed
qed

text \<open>
  Claim C7. For a fixed identifier with no recorded requests, ten requests
  (\<open>MAX_REQUESTS_PER_WINDOW\<close>) whose timestamps all lie in the 60-second window
  trailing an eleventh are each admitted and recorded, the eleventh is rejected and
  leaves the table as it was, and a request arriving once 60 seconds have passed since
  the first is admitted and recorded.
\<close>

theorem rate_limiter_window:
  assumes fresh: "limits identifier = None"
    and full: "length ts = MAX_REQUESTS_PER_WINDOW"
    and window: "\<forall>t\<in>set ts. t11 - RATE_LIMIT_WINDOW < t \<and> t \<le> t11"
    and elapsed: "hd ts + RATE_LIMIT_WINDOW \<le> later"
  shows "requests_at identifier (ts @ [t11]) limits =
           (replicate MAX_REQUESTS_PER_WINDOW True @ [False], limits(identifier \<mapsto> ts))
       \<and> checkRateLimit identifier later (limits(identifier \<mapsto> ts)) =
           (True, limits(identifier \<mapsto>
              filter (\<lambda>timestamp. timestamp > later - RATE_LIMIT_WINDOW) ts @ [later]))"
proof -
  have ne: "ts \<noteq> []"
    using full by (auto simp: MAX_REQUESTS_PER_WINDOW_def)
  have first: "requests_at identifier ts limits =
      (replicate (length ts) True, limits(identifier \<mapsto> [] @ ts))"
    using fresh full window ne by (intro requests_at_admitted [where T = t11]) auto
  have eleventh: "checkRateLimit identifier t11 (limits(identifier \<mapsto> ts)) =
      (False, limits(identifier \<mapsto> ts))"
    using full window by (intro checkRateLimit_rejects [where reqs = ts]) auto
  have run: "requests_at identifier (xs @ [t]) rl =
      (fst (requests_at identifier xs rl) @ [fst (checkRateLimit identifier t (snd (requests_at identifier xs rl)))],
       snd (checkRateLimit identifier t (snd (requests_at identifier xs rl))))" for xs t rl
    by (induction xs arbitrary: rl) (auto split: prod.splits)
  have part1: "requests_at identifier (ts @ [t11]) limits =
           (replicate MAX_REQUESTS_PER_WINDOW True @ [False], limits(identifier \<mapsto> ts))"
    using first eleventh full by (simp add: run)
  have "hd ts \<in> set ts" using ne by simp
  moreover have "\<not> later - RATE_LIMIT_WINDOW < hd ts" using elapsed by linarith
  ultimately have "length (filter (\<lambda>timestamp. later - RATE_LIMIT_WINDOW < timestamp) ts) < length ts"
    by (intro length_filter_less [where x = "hd ts"]) auto
  then have part2: "checkRateLimit identifier later (limits(identifier \<mapsto> ts)) =
           (True, limits(identifier \<mapsto>
              filter (\<lambda>timestamp. timestamp > later - RATE_LIMIT_WINDOW) ts @ [later]))"
    using full by (simp add: checkRateLimit_def Let_def)
  show ?thesis using part1 part2 by simp
qed

theorem rate_limiter_window_witness:
  "requests_at ''203.0.113.7'' ([1000, 2000, 3000, 4000, 5000, 6000, 7000, 8000, 9000, 10000] @ [60999]) Map.empty =
     ([True, True, True, True, True, True, True, True, True, True, False],
      [''203.0.113.7'' \<mapsto> [1000, 2000, 3000, 4000, 5000, 6000, 7000, 8000, 9000, 10000]])
   \<and> checkRateLimit ''203.0.113.7'' 61000
        [''203.0.113.7'' \<mapsto> [1000, 2000, 3000, 4000, 5000, 6000, 7000, 8000, 9000, 10000]] =
     (True, [''203.0.113.7'' \<mapsto> [2000, 3000, 4000, 5000, 6000, 7000, 8000, 9000, 10000, 61000]])"
  using rate_limiter_window [of Map.empty "''203.0.113.7''"
      "[1000, 2000, 3000, 4000, 5000, 6000, 7000, 8000, 9000, 10000]" 60999 61000]
  by (simp add: MAX_REQUESTS_PER_WINDOW_def RATE_LIMIT_WINDOW_def numeral_eq_Suc)

subsection \<open>Publishing: the checks made before a provider is called\<close>

lemma post_cast_too_long:
  assumes "truthy_prim (body req ''signerUuid'')" and "truthy_prim (body req ''text'')"
    and "length_exceeds (body req ''text'') 320"
  shows "post_cast up clk req s =
           (if fst (checkRateLimit (clientIP req) (millis clk) (rateLimit s))
            then failure 400 ''Cast text must be 320 characters or less''
            else failure 429 ''Rate limit exceeded. Please try again later.'',
            s\<lparr>rateLimit := snd (checkRateLimit (clientIP req) (millis clk) (rateLimit s))\<rparr>)"
  using assms by (simp add: post_cast_def Let_def split: prod.splits)

lemma post_cast_gate:
  assumes "truthy_prim (body req ''signerUuid'')" and "truthy_prim (body req ''text'')"
    and "checkRateLimit (clientIP req) (millis clk) (rateLimit s) = (True, rl')"
    and "\<not> length_exceeds (body req ''text'') 320"
  shows "post_cast up clk req s =
     (case activeSigners s (body req ''signerUuid'') of
        None \<Rightarrow> (failure 400 ''Signer not found'', s\<lparr>rateLimit := rl'\<rparr>)
      | Some signer \<Rightarrow>
          if \<not> strict_eq (get signer ''status'') (str ''approved'') then
            (failure 400 ''Signer not approved yet. Please complete the approval process first.'',
             s\<lparr>rateLimit := rl'\<rparr>)
          else if strict_eq (get signer ''provider'') (str ''neynar_siwn'') then
            post_siwn up clk (body req ''text'') signer (s\<lparr>rateLimit := rl'\<rparr>)
          else if strict_eq (get signer ''provider'') (str ''direct_farcaster'') then
            post_direct up clk (body req ''signerUuid'') (body req ''text'') (body req ''parentUrl'')
              signer (s\<lparr>rateLimit := rl'\<rparr>)
          else if strict_eq (get signer ''provider'') (str ''neynar'') \<and> neynarClient up then
            post_neynar up clk (body req ''signerUuid'') (body req ''text'') (body req ''parentUrl'')
              signer (s\<lparr>rateLimit := rl'\<rparr>)
          else (failure 400 ''Unknown signer provider'', s\<lparr>rateLimit := rl'\<rparr>))"
  using assms by (simp add: post_cast_def Let_def)

lemma post_cast_limited:
  assumes "truthy_prim (body req ''signerUuid'')" and "truthy_prim (body req ''text'')"
    and "checkRateLimit (clientIP req) (millis clk) (rateLimit s) = (False, rl')"
  shows "post_cast up clk req s =
           (failure 429 ''Rate limit exceeded. Please try again later.'', s\<lparr>rateLimit := rl'\<rparr>)"
  using assms by (simp add: post_cast_def Let_def)

lemma direct_not_siwn:
  "strict_eq v (str ''direct_farcaster'') \<Longrightarrow> \<not> strict_eq v (str ''neynar_siwn'')"
  by (cases v) auto

text \<open>
  Claim C10. The presence checks read truthiness, so a value that is present but falsy
  counts as missing: \<^verbatim>\<open>create-signer\<close> with a falsy \<^verbatim>\<open>fid\<close> (such as the number 0) or
  \<^verbatim>\<open>signerUuid\<close>, and \<^verbatim>\<open>post-cast\<close> with a falsy \<^verbatim>\<open>text\<close> (such as the empty string)
  or \<^verbatim>\<open>signerUuid\<close>, are answered 400 for missing fields, and the server state,
  the rate limiter included, is left as it was.
\<close>

theorem falsy_is_missing:
  "(\<not> truthy_prim (body req ''fid'') \<or> \<not> truthy_prim (body req ''signerUuid'') \<longrightarrow>
      create_signer clk req s = (failure 400 ''FID and signerUuid are required for SIWN flow'', s))
   \<and> (\<not> truthy_prim (body req ''signerUuid'') \<or> \<not> truthy_prim (body req ''text'') \<longrightarrow>
      post_cast up clk req s = (failure 400 ''Signer UUID and text are required'', s))
   \<and> \<not> truthy_prim (Num 0) \<and> \<not> truthy_prim (Str [])"
  by (simp add: create_signer_def post_cast_def Let_def)

text \<open>Witness: \<^verbatim>\<open>fid = 0\<close> with a signer id, and \<^verbatim>\<open>text = ""\<close> with a signer id.\<close>

theorem falsy_is_missing_witness:
  "create_signer noon
     \<lparr>body = (\<lambda>k. Undefined)(''fid'' := Num 0, ''signerUuid'' := Str ''s1''),
      clientIP = ''203.0.113.7''\<rparr> idle_server
     = (failure 400 ''FID and signerUuid are required for SIWN flow'', idle_server)
   \<and> post_cast offline noon (cast_request ''s1'' []) idle_server
     = (failure 400 ''Signer UUID and text are required'', idle_server)"
  using falsy_is_missing [of "\<lparr>body = (\<lambda>k. Undefined)(''fid'' := Num 0, ''signerUuid'' := Str ''s1''),
      clientIP = ''203.0.113.7''\<rparr>" noon idle_server offline]
    falsy_is_missing [of "cast_request ''s1'' []" noon idle_server offline]
  by (simp add: cast_request_def)

text \<open>
  Claim C2, as the handler has it. The rate limiter is consulted before the length of
  the text is looked at. A publish request with a signer id and a text of more than 320
  characters is answered 400 (text too long) when the limiter admits it and 429 when it
  does not; either way no post is written and the signer table is unchanged.
\<close>

theorem long_text:
  assumes "truthy_prim (body req ''signerUuid'')"
    and "body req ''text'' = Str t" and "length t > 320"
  shows "(fst (checkRateLimit (clientIP req) (millis clk) (rateLimit s)) \<longrightarrow>
            fst (post_cast up clk req s) = failure 400 ''Cast text must be 320 characters or less'')
       \<and> (\<not> fst (checkRateLimit (clientIP req) (millis clk) (rateLimit s)) \<longrightarrow>
            fst (post_cast up clk req s) = failure 429 ''Rate limit exceeded. Please try again later.'')
       \<and> store (snd (post_cast up clk req s)) = store s
       \<and> activeSigners (snd (post_cast up clk req s)) = activeSigners s"
proof -
  have "truthy_prim (body req ''text'')" and "length_exceeds (body req ''text'') 320"
    using assms(2,3) by auto
  then show ?thesis using assms(1) by (simp add: post_cast_too_long)
qed

text \<open>Witness: 321 characters, from a client with no recent requests and from one with ten.\<close>

theorem long_text_witness:
  "fst (post_cast offline noon (cast_request ''s1'' (replicate 321 (CHR ''a''))) idle_server)
      = failure 400 ''Cast text must be 320 characters or less''
   \<and> fst (post_cast offline noon (cast_request ''s1'' (replicate 321 (CHR ''a''))) (saturated idle_server))
      = failure 429 ''Rate limit exceeded. Please try again later.''
   \<and> store (snd (post_cast offline noon (cast_request ''s1'' (replicate 321 (CHR ''a''))) idle_server))
      = store idle_server"
  using long_text [of "cast_request ''s1'' (replicate 321 (CHR ''a''))" "replicate 321 (CHR ''a'')"
      noon idle_server offline]
    long_text [of "cast_request ''s1'' (replicate 321 (CHR ''a''))" "replicate 321 (CHR ''a'')"
      noon "saturated idle_server" offline]
  by (simp add: cast_request_def idle_server_def saturated_def noon_def checkRateLimit_def
      MAX_REQUESTS_PER_WINDOW_def RATE_LIMIT_WINDOW_def)

text \<open>
  Against C2 as stated: a text of 321 characters from a client that already made ten
  requests in the last minute is answered 429, not 400.
\<close>

theorem long_text_counterexample:
  "fst (post_cast offline noon (cast_request ''s1'' (replicate 321 (CHR ''a''))) (saturated idle_server))
      = failure 429 ''Rate limit exceeded. Please try again later.''
   \<and> code (fst (post_cast offline noon (cast_request ''s1'' (replicate 321 (CHR ''a'')))
               (saturated idle_server))) \<noteq> 400"
  by (simp add: post_cast_def cast_request_def idle_server_def saturated_def noon_def
      checkRateLimit_def MAX_REQUESTS_PER_WINDOW_def RATE_LIMIT_WINDOW_def Let_def
      failure_def reply_def)

text \<open>
  Claim C4, as the handlers have it. A publish request with a signer id and a text within
  the limit, for a signer id that is not in the signer table: when the rate limiter
  admits it, the answer is status 400 with the error \<^verbatim>\<open>Signer not found\<close>, and nothing
  but the limiter's record changes; when the limiter does not admit it, the answer is 429
  and the signer is never looked up. The status check answers an id that is not in the
  table with 404 and the same error.
\<close>

theorem unknown_signer:
  assumes present: "truthy_prim (body req ''signerUuid'')" "truthy_prim (body req ''text'')"
    and short: "\<not> length_exceeds (body req ''text'') 320"
    and unknown: "activeSigners s (body req ''signerUuid'') = None"
  shows "(fst (checkRateLimit (clientIP req) (millis clk) (rateLimit s)) \<longrightarrow>
            post_cast up clk req s =
              (failure 400 ''Signer not found'',
               s\<lparr>rateLimit := snd (checkRateLimit (clientIP req) (millis clk) (rateLimit s))\<rparr>))
       \<and> (\<not> fst (checkRateLimit (clientIP req) (millis clk) (rateLimit s)) \<longrightarrow>
            post_cast up clk req s =
              (failure 429 ''Rate limit exceeded. Please try again later.'',
               s\<lparr>rateLimit := snd (checkRateLimit (clientIP req) (millis clk) (rateLimit s))\<rparr>))
       \<and> (activeSigners s (Str signerUuid) = None \<longrightarrow>
            signer_status up clk signerUuid s = (failure 404 ''Signer not found'', s))"
proof -
  obtain admitted rl' where
    limiter: "checkRateLimit (clientIP req) (millis clk) (rateLimit s) = (admitted, rl')"
    by (cases "checkRateLimit (clientIP req) (millis clk) (rateLimit s)")
  show ?thesis
  proof (cases admitted)
    case True
    with limiter unknown show ?thesis
      by (simp add: post_cast_gate [OF present _ short] signer_status_def)
  next
    case False
    with limiter show ?thesis
      by (simp add: post_cast_limited [OF present] signer_status_def)
  qed
qed

text \<open>
  Witness: an id nobody registered, from a client with no recent requests and from one
  with ten, and the status check of that id.
\<close>

theorem unknown_signer_witness:
  "post_cast offline noon (cast_request ''nobody'' ''hello'') idle_server
     = (failure 400 ''Signer not found'',
        idle_server\<lparr>rateLimit := [''203.0.113.7'' \<mapsto> [1735732800000]]\<rparr>)
   \<and> fst (post_cast offline noon (cast_request ''nobody'' ''hello'') (saturated idle_server))
     = failure 429 ''Rate limit exceeded. Please try again later.''
   \<and> signer_status offline noon ''nobody'' idle_server
     = (failure 404 ''Signer not found'', idle_server)"
  using unknown_signer [of "cast_request ''nobody'' ''hello''" idle_server noon offline "''nobody''"]
    unknown_signer [of "cast_request ''nobody'' ''hello''" "saturated idle_server" noon offline
      "''nobody''"]
  by (simp add: cast_request_def idle_server_def saturated_def noon_def checkRateLimit_def
      MAX_REQUESTS_PER_WINDOW_def RATE_LIMIT_WINDOW_def)

text \<open>
  Against C4 as stated: on a server that has just started, a publish request for an id
  nobody registered is answered with status 400, not 404; and the same request from a
  client that already made ten requests in the last minute is answered 429 and never
  reaches the signer lookup.
\<close>

theorem unknown_signer_counterexample:
  "code (fst (post_cast offline noon (cast_request ''nobody'' ''hello'') idle_server)) = 400
   \<and> payload (fst (post_cast offline noon (cast_request ''nobody'' ''hello'') idle_server))
     = [(''error'', str ''Signer not found'')]
   \<and> fst (post_cast offline noon (cast_request ''nobody'' ''hello'') (saturated idle_server))
     = failure 429 ''Rate limit exceeded. Please try again later.''
   \<and> activeSigners (saturated idle_server) (Str ''nobody'') = None
   \<and> payload (fst (post_cast offline noon (cast_request ''nobody'' ''hello'') (saturated idle_server)))
     \<noteq> [(''error'', str ''Signer not found'')]"
  by (simp add: post_cast_def cast_request_def idle_server_def saturated_def noon_def
      checkRateLimit_def MAX_REQUESTS_PER_WINDOW_def RATE_LIMIT_WINDOW_def Let_def
      failure_def reply_def)


subsection \<open>Publishing: the stored-status gate and what follows it\<close>





text \<open>
  Claim C8. A publish request that has passed the presence check, the rate limiter, the
  length check and the stored-status gate, for a \<^verbatim>\<open>direct_farcaster\<close> signer that has no
  \<^verbatim>\<open>keypair\<close> or whose \<^verbatim>\<open>keypair\<close> has no \<^verbatim>\<open>privateKey\<close>, is answered 400 with the error
  \<^verbatim>\<open>Ed25519 keys not found\<close>; no post is written and no upstream call decides the
  answer.
\<close>

theorem keys_not_found:
  assumes present: "truthy_prim (body req ''signerUuid'')" "truthy_prim (body req ''text'')"
    and admitted: "checkRateLimit (clientIP req) (millis clk) (rateLimit s) = (True, rl')"
    and short: "\<not> length_exceeds (body req ''text'') 320"
    and known: "activeSigners s (body req ''signerUuid'') = Some signer"
    and approved: "strict_eq (get signer ''status'') (str ''approved'')"
    and direct: "strict_eq (get signer ''provider'') (str ''direct_farcaster'')"
    and keyless: "\<not> truthy (get signer ''keypair'')
                  \<or> \<not> truthy (read_prop (get signer ''keypair'') ''privateKey'')"
  shows "post_cast up clk req s =
           (reply 400 [(''error'', str ''Ed25519 keys not found''),
                       (''currentStatus'', get signer ''status'')],
            s\<lparr>rateLimit := rl'\<rparr>)"
proof -
  have "post_cast up clk req s =
      post_direct up clk (body req ''signerUuid'') (body req ''text'') (body req ''parentUrl'')
        signer (s\<lparr>rateLimit := rl'\<rparr>)"
    using known approved direct direct_not_siwn [OF direct]
    by (simp add: post_cast_gate [OF present admitted short])
  also have "\<dots> = (reply 400 [(''error'', str ''Ed25519 keys not found''),
                       (''currentStatus'', get signer ''status'')],
            s\<lparr>rateLimit := rl'\<rparr>)"
    using keyless unfolding post_direct_def by (simp only: if_True)
  finally show ?thesis .
qed

text \<open>Witness: an approved direct signer whose key pair holds the public key only.\<close>

theorem keys_not_found_witness:
  "post_cast completed_upstream noon (cast_request ''s1'' ''hello'')
     (server_with (direct_signer ''approved'' (Obj [(''publicKey'', str ''0x5a1f'')])))
   = (reply 400 [(''error'', str ''Ed25519 keys not found''),
                 (''currentStatus'', str ''approved'')],
      (server_with (direct_signer ''approved'' (Obj [(''publicKey'', str ''0x5a1f'')])))
        \<lparr>rateLimit := [''203.0.113.7'' \<mapsto> [1735732800000]]\<rparr>)"
  using keys_not_found [of "cast_request ''s1'' ''hello''" noon
      "server_with (direct_signer ''approved'' (Obj [(''publicKey'', str ''0x5a1f'')]))"
      "[''203.0.113.7'' \<mapsto> [1735732800000]]"
      "direct_signer ''approved'' (Obj [(''publicKey'', str ''0x5a1f'')])" completed_upstream]
  by (simp add: cast_request_def server_with_def idle_server_def noon_def checkRateLimit_def
      MAX_REQUESTS_PER_WINDOW_def direct_signer_def get_def)


subsection \<open>The direct branches on a table holding a direct signer\<close>

text \<open>
  The \<^verbatim>\<open>direct_farcaster\<close> branches, on a signer table that holds such a signer (no
  handler stores one, as shown below). A \<^verbatim>\<open>direct_farcaster\<close> signer for account 42 is
  stored as \<^verbatim>\<open>'pending'\<close>; upstream reports its key request \<^verbatim>\<open>'completed'\<close>. The status
  check stores \<^verbatim>\<open>'completed'\<close>. The publish request that follows is then answered 400
  (not approved yet) and writes no post, because the gate asks for \<^verbatim>\<open>'approved'\<close>. Had
  the stored status stayed \<^verbatim>\<open>'approved'\<close>, the same request with the same upstream
  answer would have produced the cast, tagged \<^verbatim>\<open>direct_farcaster\<close>, for account 42.
\<close>

theorem completed_signer_cannot_publish:
  "signer_status completed_upstream noon ''s1'' (server_with (direct_signer ''pending'' ed25519_keys))
     = (reply 200 [(''success'', Prim (Bool True)),
                   (''signer'', Obj (direct_signer ''completed'' ed25519_keys)),
                   (''status'', str ''completed''),
                   (''provider'', str ''direct_farcaster''),
                   (''realTimeStatus'',
                      Obj [(''state'', str ''completed''), (''userFid'', Prim (Num 42))])],
        server_with (direct_signer ''completed'' ed25519_keys))
   \<and> post_cast completed_upstream minute_later (cast_request ''s1'' ''hello'')
        (server_with (direct_signer ''completed'' ed25519_keys))
     = (failure 400 ''Signer not approved yet. Please complete the approval process first.'',
        (server_with (direct_signer ''completed'' ed25519_keys))
          \<lparr>rateLimit := [''203.0.113.7'' \<mapsto> [1735732860000]]\<rparr>)
   \<and> fst (post_cast completed_upstream minute_later (cast_request ''s1'' ''hello'')
        (server_with (direct_signer ''approved'' ed25519_keys)))
     = reply 200 [(''success'', Prim (Bool True)),
                  (''cast'', Obj [(''hash'', str ''pending_hub_submission''),
                                  (''text'', str ''hello''),
                                  (''signerUuid'', str ''s1''),
                                  (''fid'', Prim (Num 42)),
                                  (''timestamp'', str ''2025-01-01T12:01:00.000Z''),
                                  (''parentUrl'', Prim Null),
                                  (''provider'', str ''direct_farcaster''),
                                  (''status'', str ''ready_for_hub_submission''),
                                  (''note'', str ''Ed25519 keys approved! Cast is ready to submit to Farcaster hub.''),
                                  (''nextStep'', str ''Implement cast submission to Farcaster hub using @farcaster/hub-nodejs'')]),
                  (''provider'', str ''direct_farcaster'')]"
proof -
  have poll: "checkSignedKeyRequestStatus completed_upstream (str ''0xt0'')
      = Inr (Obj [(''state'', str ''completed''), (''userFid'', Prim (Num 42))])"
    by (simp add: checkSignedKeyRequestStatus_def completed_upstream_def offline_def get_def Let_def)
  have checked: "signer_status completed_upstream noon ''s1''
        (server_with (direct_signer ''pending'' ed25519_keys))
     = (reply 200 [(''success'', Prim (Bool True)),
                   (''signer'', Obj (direct_signer ''completed'' ed25519_keys)),
                   (''status'', str ''completed''),
                   (''provider'', str ''direct_farcaster''),
                   (''realTimeStatus'',
                      Obj [(''state'', str ''completed''), (''userFid'', Prim (Num 42))])],
        server_with (direct_signer ''completed'' ed25519_keys))"
    by (simp add: signer_status_def status_direct_def poll server_with_def idle_server_def
        direct_signer_def get_def Let_def updateSession_def getSession_def readJsonFile_def
        empty_disk_def set_field_def)
  have rejected: "post_cast completed_upstream minute_later (cast_request ''s1'' ''hello'')
        (server_with (direct_signer ''completed'' ed25519_keys))
     = (failure 400 ''Signer not approved yet. Please complete the approval process first.'',
        (server_with (direct_signer ''completed'' ed25519_keys))
          \<lparr>rateLimit := [''203.0.113.7'' \<mapsto> [1735732860000]]\<rparr>)"
    by (simp add: post_cast_def cast_request_def server_with_def idle_server_def
        direct_signer_def get_def Let_def minute_later_def checkRateLimit_def
        MAX_REQUESTS_PER_WINDOW_def)
  have accepted: "fst (post_cast completed_upstream minute_later (cast_request ''s1'' ''hello'')
        (server_with (direct_signer ''approved'' ed25519_keys)))
     = reply 200 [(''success'', Prim (Bool True)),
                  (''cast'', Obj [(''hash'', str ''pending_hub_submission''),
                                  (''text'', str ''hello''),
                                  (''signerUuid'', str ''s1''),
                                  (''fid'', Prim (Num 42)),
                                  (''timestamp'', str ''2025-01-01T12:01:00.000Z''),
                                  (''parentUrl'', Prim Null),
                                  (''provider'', str ''direct_farcaster''),
                                  (''status'', str ''ready_for_hub_submission''),
                                  (''note'', str ''Ed25519 keys approved! Cast is ready to submit to Farcaster hub.''),
                                  (''nextStep'', str ''Implement cast submission to Farcaster hub using @farcaster/hub-nodejs'')]),
                  (''provider'', str ''direct_farcaster'')]"
    by (simp add: post_cast_def post_direct_def poll cast_request_def server_with_def
        idle_server_def direct_signer_def ed25519_keys_def get_def Let_def minute_later_def
        checkRateLimit_def MAX_REQUESTS_PER_WINDOW_def or_else_def)
  show ?thesis using checked rejected accepted by simp
qed

text \<open>
  The same scenario read off the responses: the publish attempt after the status check
  is a 400, the one on the signer stored as \<^verbatim>\<open>'approved'\<close> is a 200.
\<close>

theorem completed_signer_cannot_publish_witness:
  "code (fst (post_cast completed_upstream minute_later (cast_request ''s1'' ''hello'')
        (snd (signer_status completed_upstream noon ''s1''
                (server_with (direct_signer ''pending'' ed25519_keys)))))) = 400
   \<and> store (snd (post_cast completed_upstream minute_later (cast_request ''s1'' ''hello'')
        (snd (signer_status completed_upstream noon ''s1''
                (server_with (direct_signer ''pending'' ed25519_keys)))))) = empty_disk
   \<and> code (fst (post_cast completed_upstream minute_later (cast_request ''s1'' ''hello'')
        (server_with (direct_signer ''approved'' ed25519_keys)))) = 200"
  using completed_signer_cannot_publish
  by (simp add: failure_def reply_def server_with_def idle_server_def)


subsection \<open>The signers a run stores\<close>



















subsection \<open>Status checks fail open\<close>

text \<open>
  The ways the key-request poll fails: \<^verbatim>\<open>fetch\<close> throws, the response is not \<^verbatim>\<open>ok\<close>,
  or its body cannot be parsed.
\<close>

lemma poll_failure_modes:
  assumes "isl (fetch up (FARCASTER_API_BASE @ ''/v2/signed-key-request?token='' @ template token))
           \<or> (\<exists>response. fetch up (FARCASTER_API_BASE @ ''/v2/signed-key-request?token='' @ template token)
                  = Inr response \<and> (\<not> ok response \<or> isl (json response)))"
  shows "isl (checkSignedKeyRequestStatus up token)"
  using assms
  by (auto simp: checkSignedKeyRequestStatus_def Let_def isl_def split: sum.splits)

text \<open>
  Claim C5. For a signer that is in the table, when the live status call made for it
  fails (the SDK's \<^verbatim>\<open>getSigner\<close> for a \<^verbatim>\<open>neynar\<close> signer with the client configured, the
  key-request poll for a \<^verbatim>\<open>direct_farcaster\<close> signer with a token), the status check
  still answers 200 with the stored signer, its stored status and provider, and leaves
  the server state as it was.
\<close>

theorem status_fail_open:
  assumes known: "activeSigners s (Str signerUuid) = Some signer"
    and sdk_down: "strict_eq (get signer ''provider'') (str ''neynar'') \<Longrightarrow> neynarClient up \<Longrightarrow>
                   isl (getSigner up (str signerUuid))"
    and poll_down: "strict_eq (get signer ''provider'') (str ''direct_farcaster'') \<Longrightarrow>
                    truthy (get signer ''token'') \<Longrightarrow>
                    isl (checkSignedKeyRequestStatus up (get signer ''token''))"
  shows "signer_status up clk signerUuid s =
           (reply 200 [(''success'', Prim (Bool True)),
                       (''signer'', Obj signer),
                       (''status'', get signer ''status''),
                       (''provider'', get signer ''provider'')], s)"
proof -
  have sdk: "(if strict_eq (get signer ''provider'') (str ''neynar'') \<and> neynarClient up
              then status_neynar up clk signerUuid signer s else None) = None"
    using sdk_down by (auto simp: status_neynar_def isl_def)
  have poll: "(if strict_eq (get signer ''provider'') (str ''direct_farcaster'')
                  \<and> truthy (get signer ''token'')
               then status_direct up clk signerUuid signer s else None) = None"
    using poll_down by (auto simp: status_direct_def isl_def)
  show ?thesis
    unfolding signer_status_def using known by (simp add: sdk poll)
qed

text \<open>
  Witness: a pending direct signer while every upstream call fails, and a pending
  managed signer while the configured SDK fails.
\<close>

theorem status_fail_open_witness:
  "signer_status offline noon ''s1'' (server_with (direct_signer ''pending'' ed25519_keys))
     = (reply 200 [(''success'', Prim (Bool True)),
                   (''signer'', Obj (direct_signer ''pending'' ed25519_keys)),
                   (''status'', str ''pending''),
                   (''provider'', str ''direct_farcaster'')],
        server_with (direct_signer ''pending'' ed25519_keys))
   \<and> signer_status (offline\<lparr>neynarClient := True\<rparr>) noon ''s1''
        (server_with (managed_signer ''pending_approval''))
     = (reply 200 [(''success'', Prim (Bool True)),
                   (''signer'', Obj (managed_signer ''pending_approval'')),
                   (''status'', str ''pending_approval''),
                   (''provider'', str ''neynar'')],
        server_with (managed_signer ''pending_approval''))"
  using status_fail_open [of "server_with (direct_signer ''pending'' ed25519_keys)" "''s1''"
      "direct_signer ''pending'' ed25519_keys" offline noon]
    status_fail_open [of "server_with (managed_signer ''pending_approval'')" "''s1''"
      "managed_signer ''pending_approval''" "offline\<lparr>neynarClient := True\<rparr>" noon]
  by (simp add: server_with_def idle_server_def direct_signer_def managed_signer_def get_def
      offline_def checkSignedKeyRequestStatus_def)

subsection \<open>Profile lookup falls back from the direct read to the SDK\<close>

lemma truthy_not_nullish: "truthy v \<Longrightarrow> \<not> nullish v"
  by (cases v rule: nullish.cases) auto

lemma direct_user_log:
  "snd (direct_user up fid calls) = calls @ [Fetch (user_url fid)]"
  by (simp add: direct_user_def fetch_logged_def split: sum.splits)

lemma direct_user_found:
  "fst (direct_user up fid calls) = Some user \<longleftrightarrow>
     (\<exists>response data. fetch up (user_url fid) = Inr response \<and> ok response
        \<and> json response = Inr data \<and> \<not> nullish data
        \<and> truthy (read_prop data ''result'')
        \<and> truthy (read_prop (read_prop data ''result'') ''user'')
        \<and> user = read_prop (read_prop data ''result'') ''user'')"
  by (auto simp: direct_user_def fetch_logged_def split: sum.splits)

lemma direct_user_truthy: "fst (direct_user up fid calls) = Some user \<Longrightarrow> truthy user"
  by (auto simp: direct_user_found)

lemma get_user_direct:
  assumes "fst (direct_user up fid []) = Some user"
  shows "get_user up clk fid s =
           (reply 200 [(''success'', Prim (Bool True)),
                       (''user'', user),
                       (''provider'', str ''direct_farcaster'')],
            [Fetch (user_url fid)],
            s\<lparr>store := snd (writeJsonFile (USERS_DIR, template (read_prop user ''fid'') @ ''.json'')
                           (set_field (own_props user) ''updatedAt'' (str (iso clk))) (store s))\<rparr>)"
proof -
  have "\<not> nullish user"
    using assms by (intro truthy_not_nullish direct_user_truthy)
  moreover have "direct_user up fid [] = (Some user, [Fetch (user_url fid)])"
    using assms direct_user_log [of up fid "[]"] by (cases "direct_user up fid []") simp
  ultimately show ?thesis
    by (simp add: get_user_def saveUser_def split: prod.splits)
qed

lemma get_user_fallback:
  assumes "fst (direct_user up fid []) = None"
  shows "get_user up clk fid s = neynar_fallback up clk fid [Fetch (user_url fid)] s"
proof -
  have "direct_user up fid [] = (None, [Fetch (user_url fid)])"
    using assms direct_user_log [of up fid "[]"] by (cases "direct_user up fid []") simp
  then show ?thesis by (simp add: get_user_def)
qed

lemma neynar_fallback_log:
  "fst (snd (neynar_fallback up clk fid calls s)) =
     (if neynarClient up then calls @ [FetchBulkUsers (Prim (parseInt (Str fid)))] else calls)"
  by (simp add: neynar_fallback_def fetchBulkUsers_logged_def
      split: sum.splits list.splits prod.splits)

text \<open>
  Claim C6. A profile lookup reads the direct API first: the first upstream read of
  every lookup is the \<^verbatim>\<open>fetch\<close> of the account's URL, and the direct read gives a user
  exactly when that \<^verbatim>\<open>fetch\<close> answered \<^verbatim>\<open>ok\<close> with a body carrying \<^verbatim>\<open>result.user\<close>. When it
  does, the answer is 200 with that user, tagged \<^verbatim>\<open>direct_farcaster\<close>, the user is saved
  and the SDK is not read. The SDK is read exactly when the direct read gave no user (it
  threw, was not \<^verbatim>\<open>ok\<close>, or carried no user) and the SDK is configured. When the direct
  read gave none and the configured SDK returns a user, the answer is 200 with that
  user, tagged \<^verbatim>\<open>neynar\<close>, and the user is saved. When the direct read gave none and the
  SDK is not configured, throws or returns no user, the answer is 500 with the combined
  message, and nothing is stored.
\<close>

theorem profile_fallback:
  "(fst (direct_user up fid []) = Some found \<longleftrightarrow>
      (\<exists>response data. fetch up (user_url fid) = Inr response \<and> ok response
         \<and> json response = Inr data \<and> \<not> nullish data
         \<and> truthy (read_prop data ''result'')
         \<and> truthy (read_prop (read_prop data ''result'') ''user'')
         \<and> found = read_prop (read_prop data ''result'') ''user''))
   \<and> fst (snd (get_user up clk fid s)) =
        (if fst (direct_user up fid []) = None \<and> neynarClient up
         then [Fetch (user_url fid), FetchBulkUsers (Prim (parseInt (Str fid)))]
         else [Fetch (user_url fid)])
   \<and> (fst (direct_user up fid []) = Some found \<longrightarrow>
        get_user up clk fid s =
          (reply 200 [(''success'', Prim (Bool True)),
                      (''user'', found),
                      (''provider'', str ''direct_farcaster'')],
           [Fetch (user_url fid)],
           s\<lparr>store := snd (writeJsonFile (USERS_DIR, template (read_prop found ''fid'') @ ''.json'')
                          (set_field (own_props found) ''updatedAt'' (str (iso clk))) (store s))\<rparr>))
   \<and> (fst (direct_user up fid []) = None \<longrightarrow> neynarClient up \<longrightarrow>
        fetchBulkUsers up (Prim (parseInt (Str fid))) = Inr (user # others) \<longrightarrow> \<not> nullish user \<longrightarrow>
        get_user up clk fid s =
          (reply 200 [(''success'', Prim (Bool True)),
                      (''user'', user),
                      (''provider'', str ''neynar'')],
           [Fetch (user_url fid), FetchBulkUsers (Prim (parseInt (Str fid)))],
           s\<lparr>store := snd (writeJsonFile (USERS_DIR, template (read_prop user ''fid'') @ ''.json'')
                          (set_field (own_props user) ''updatedAt'' (str (iso clk))) (store s))\<rparr>))
   \<and> (fst (direct_user up fid []) = None \<longrightarrow>
        (\<not> neynarClient up \<or> isl (fetchBulkUsers up (Prim (parseInt (Str fid))))
           \<or> fetchBulkUsers up (Prim (parseInt (Str fid))) = Inr []
           \<or> (\<exists>first others. fetchBulkUsers up (Prim (parseInt (Str fid))) = Inr (first # others)
                 \<and> nullish first)) \<longrightarrow>
        fst (get_user up clk fid s) =
          reply 500 [(''error'', str ''Failed to fetch user''),
                     (''details'', str ''Both Direct Farcaster API and Neynar failed to fetch user'')]
        \<and> snd (snd (get_user up clk fid s)) = s)"
proof -
  have log: "fst (snd (get_user up clk fid s)) =
        (if fst (direct_user up fid []) = None \<and> neynarClient up
         then [Fetch (user_url fid), FetchBulkUsers (Prim (parseInt (Str fid)))]
         else [Fetch (user_url fid)])"
  proof (cases "fst (direct_user up fid [])")
    case None
    then show ?thesis by (simp add: get_user_fallback neynar_fallback_log)
  next
    case (Some user)
    then show ?thesis by (simp add: get_user_direct)
  qed
  have direct: "fst (direct_user up fid []) = Some found \<longrightarrow>
        get_user up clk fid s =
          (reply 200 [(''success'', Prim (Bool True)),
                      (''user'', found),
                      (''provider'', str ''direct_farcaster'')],
           [Fetch (user_url fid)],
           s\<lparr>store := snd (writeJsonFile (USERS_DIR, template (read_prop found ''fid'') @ ''.json'')
                          (set_field (own_props found) ''updatedAt'' (str (iso clk))) (store s))\<rparr>)"
    by (simp add: get_user_direct)
  have sdk: "fst (direct_user up fid []) = None \<longrightarrow> neynarClient up \<longrightarrow>
        fetchBulkUsers up (Prim (parseInt (Str fid))) = Inr (user # others) \<longrightarrow> \<not> nullish user \<longrightarrow>
        get_user up clk fid s =
          (reply 200 [(''success'', Prim (Bool True)),
                      (''user'', user),
                      (''provider'', str ''neynar'')],
           [Fetch (user_url fid), FetchBulkUsers (Prim (parseInt (Str fid)))],
           s\<lparr>store := snd (writeJsonFile (USERS_DIR, template (read_prop user ''fid'') @ ''.json'')
                          (set_field (own_props user) ''updatedAt'' (str (iso clk))) (store s))\<rparr>)"
    by (simp add: get_user_fallback neynar_fallback_def fetchBulkUsers_logged_def saveUser_def
        split: prod.splits)
  have both: "fst (direct_user up fid []) = None \<longrightarrow>
        (\<not> neynarClient up \<or> isl (fetchBulkUsers up (Prim (parseInt (Str fid))))
           \<or> fetchBulkUsers up (Prim (parseInt (Str fid))) = Inr []
           \<or> (\<exists>first others. fetchBulkUsers up (Prim (parseInt (Str fid))) = Inr (first # others)
                 \<and> nullish first)) \<longrightarrow>
        fst (get_user up clk fid s) =
          reply 500 [(''error'', str ''Failed to fetch user''),
                     (''details'', str ''Both Direct Farcaster API and Neynar failed to fetch user'')]
        \<and> snd (snd (get_user up clk fid s)) = s"
    by (auto simp: get_user_fallback neynar_fallback_def fetchBulkUsers_logged_def
        both_failed_def saveUser_def isl_def)
  show ?thesis using direct_user_found [of up fid "[]" found] log direct sdk both by blast
qed

text \<open>
  Witness: account 42, once with a direct API that knows the account, once with the
  direct API down and an SDK that knows the account, and once with everything down.
\<close>

theorem profile_fallback_witness:
  "fst (get_user direct_profiles noon ''42'' idle_server)
     = reply 200 [(''success'', Prim (Bool True)),
                  (''user'', Obj [(''fid'', Prim (Num 42)), (''username'', str ''alice'')]),
                  (''provider'', str ''direct_farcaster'')]
   \<and> fst (snd (get_user direct_profiles noon ''42'' idle_server))
     = [Fetch ''https://api.farcaster.xyz/v2/user?fid=42'']
   \<and> fst (get_user sdk_only noon ''42'' idle_server)
     = reply 200 [(''success'', Prim (Bool True)),
                  (''user'', Obj [(''fid'', Prim (Num 42)), (''username'', str ''alice'')]),
                  (''provider'', str ''neynar'')]
   \<and> fst (snd (get_user sdk_only noon ''42'' idle_server))
     = [Fetch ''https://api.farcaster.xyz/v2/user?fid=42'', FetchBulkUsers (Prim (Num 42))]
   \<and> fst (get_user offline noon ''42'' idle_server)
     = reply 500 [(''error'', str ''Failed to fetch user''),
                  (''details'', str ''Both Direct Farcaster API and Neynar failed to fetch user'')]
   \<and> fst (snd (get_user offline noon ''42'' idle_server))
     = [Fetch ''https://api.farcaster.xyz/v2/user?fid=42'']"
proof -
  have fid: "parseInt (Str ''42'') = Num 42"
    by (simp add: parseInt_def parseInt_string_def is_space_def parse_unsigned_def
        parse_digits_def is_digit_def digit_value_def to_double_def Let_def)
  have url: "user_url ''42'' = ''https://api.farcaster.xyz/v2/user?fid=42''"
    by (simp add: user_url_def FARCASTER_API_BASE_def)
  have known: "fst (direct_user direct_profiles ''42'' []) =
      Some (Obj [(''fid'', Prim (Num 42)), (''username'', str ''alice'')])"
    by (simp add: direct_user_def fetch_logged_def direct_profiles_def offline_def get_def)
  have down: "fst (direct_user sdk_only ''42'' []) = None"
      "fst (direct_user offline ''42'' []) = None"
    by (simp_all add: direct_user_def fetch_logged_def sdk_only_def offline_def)
  from profile_fallback [of direct_profiles "''42''"
      "Obj [(''fid'', Prim (Num 42)), (''username'', str ''alice'')]" noon idle_server
      "Prim Null" "[]"]
    profile_fallback [of sdk_only "''42''" "Prim Null" noon idle_server
      "Obj [(''fid'', Prim (Num 42)), (''username'', str ''alice'')]" "[]"]
    profile_fallback [of offline "''42''" "Prim Null" noon idle_server "Prim Null" "[]"]
  show ?thesis
    unfolding known down fid url
    by (simp add: sdk_only_def offline_def direct_profiles_def)
qed


subsection \<open>Store round trips\<close>

lemma read_after_write:
  "writeJsonFile filePath data d = (True, d') \<Longrightarrow>
   readJsonFile filePath d' = to_json (Obj data)"
  by (auto simp: writeJsonFile_def readJsonFile_def split: if_splits)

text \<open>
  Claim C9, as the store has it. The key of a record is taken from the record: a
  session's \<^verbatim>\<open>signerUuid\<close>, a user's \<^verbatim>\<open>fid\<close>. When \<^verbatim>\<open>saveSession\<close> or \<^verbatim>\<open>saveUser\<close>
  reports success, reading that key back gives the record as JSON with \<^verbatim>\<open>updatedAt\<close> set
  to the time of the write. Sessions are the only records with a delete: after
  \<^verbatim>\<open>deleteSession\<close>, where the file system does not refuse the removal, reading the key
  gives \<^verbatim>\<open>null\<close>. A post is stored under a generated name as the record with \<^verbatim>\<open>id\<close>,
  \<^verbatim>\<open>createdAt\<close> and \<^verbatim>\<open>timestamp\<close> set, and no \<^verbatim>\<open>updatedAt\<close> is added to it.
\<close>

theorem store_round_trip:
  "(saveSession v clk d = (True, d') \<longrightarrow>
      getSession (get v ''signerUuid'') d' =
        to_json (Obj (set_field v ''updatedAt'' (str (iso clk)))))
   \<and> (saveUser u clk d = Inr (True, d') \<longrightarrow>
      getUser (read_prop u ''fid'') d' =
        to_json (Obj (set_field (own_props u) ''updatedAt'' (str (iso clk)))))
   \<and> (\<not> read_only d (SESSIONS_DIR, template k @ ''.json'') \<longrightarrow>
      getSession k (snd (deleteSession k d)) = Prim Null)
   \<and> (savePost p clk d = (True, d') \<longrightarrow>
      readJsonFile (POSTS_DIR, show_int (millis clk) @ ''_'' @ template (get p ''hash'') @ ''.json'') d' =
        to_json (Obj (spread p
          [(''id'', str (replace_first
                      (show_int (millis clk) @ ''_'' @ template (get p ''hash'') @ ''.json'')
                      ''.json'' [])),
           (''createdAt'', str (iso clk)),
           (''timestamp'', Prim (Num (millis clk)))])))"
proof -
  have session: "saveSession v clk d = (True, d') \<Longrightarrow>
      getSession (get v ''signerUuid'') d' =
        to_json (Obj (set_field v ''updatedAt'' (str (iso clk))))"
    unfolding saveSession_def getSession_def by (rule read_after_write)
  have user: "saveUser u clk d = Inr (True, d') \<Longrightarrow>
      getUser (read_prop u ''fid'') d' =
        to_json (Obj (set_field (own_props u) ''updatedAt'' (str (iso clk))))"
  proof -
    assume "saveUser u clk d = Inr (True, d')"
    then have "writeJsonFile (USERS_DIR, template (read_prop u ''fid'') @ ''.json'')
        (set_field (own_props u) ''updatedAt'' (str (iso clk))) d = (True, d')"
      by (simp add: saveUser_def split: if_splits)
    then show ?thesis
      unfolding getUser_def by (rule read_after_write)
  qed
  have deleted: "\<not> read_only d (SESSIONS_DIR, template k @ ''.json'') \<Longrightarrow>
      getSession k (snd (deleteSession k d)) = Prim Null"
    by (auto simp: deleteSession_def getSession_def readJsonFile_def Let_def)
  have post: "savePost p clk d = (True, d') \<Longrightarrow>
      readJsonFile (POSTS_DIR, show_int (millis clk) @ ''_'' @ template (get p ''hash'') @ ''.json'') d' =
        to_json (Obj (spread p
          [(''id'', str (replace_first
                      (show_int (millis clk) @ ''_'' @ template (get p ''hash'') @ ''.json'')
                      ''.json'' [])),
           (''createdAt'', str (iso clk)),
           (''timestamp'', Prim (Num (millis clk)))]))"
    unfolding savePost_def Let_def by (rule read_after_write)
  show ?thesis using session user deleted post by blast
qed

text \<open>Witness: one session, one user and one post on an empty store.\<close>

theorem store_round_trip_witness:
  "getSession (str ''s1'')
     (snd (saveSession [(''signerUuid'', str ''s1''), (''status'', str ''approved'')] noon empty_disk))
   = Obj [(''signerUuid'', str ''s1''), (''status'', str ''approved''),
          (''updatedAt'', str ''2025-01-01T12:00:00.000Z'')]
   \<and> getUser (Prim (Num 42))
     (snd (writeJsonFile (USERS_DIR, ''42.json'')
        [(''fid'', Prim (Num 42)), (''username'', str ''alice''),
         (''updatedAt'', str ''2025-01-01T12:00:00.000Z'')] empty_disk))
   = Obj [(''fid'', Prim (Num 42)), (''username'', str ''alice''),
          (''updatedAt'', str ''2025-01-01T12:00:00.000Z'')]
   \<and> getSession (str ''s1'')
     (snd (deleteSession (str ''s1'')
        (snd (saveSession [(''signerUuid'', str ''s1''), (''status'', str ''approved'')] noon empty_disk))))
   = Prim Null
   \<and> readJsonFile (POSTS_DIR, ''1735732800000_0xabc.json'')
     (snd (savePost [(''hash'', str ''0xabc''), (''text'', str ''hello'')] noon empty_disk))
   = Obj [(''hash'', str ''0xabc''), (''text'', str ''hello''),
          (''id'', str ''1735732800000_0xabc''),
          (''createdAt'', str ''2025-01-01T12:00:00.000Z''),
          (''timestamp'', Prim (Num 1735732800000))]"
proof -
  let ?session = "[(''signerUuid'', str ''s1''), (''status'', str ''approved'')]"
  let ?user = "Obj [(''fid'', Prim (Num 42)), (''username'', str ''alice'')]"
  let ?post = "[(''hash'', str ''0xabc''), (''text'', str ''hello'')]"
  have session: "saveSession ?session noon empty_disk =
      (True, snd (saveSession ?session noon empty_disk))"
    by (simp add: saveSession_def writeJsonFile_def empty_disk_def)
  have user: "saveUser ?user noon empty_disk =
      Inr (True, snd (writeJsonFile (USERS_DIR, ''42.json'')
        [(''fid'', Prim (Num 42)), (''username'', str ''alice''),
         (''updatedAt'', str ''2025-01-01T12:00:00.000Z'')] empty_disk))"
    by (simp add: saveUser_def writeJsonFile_def empty_disk_def noon_def get_def
        show_int_def number_text_def digits.simps set_field_def is_index_def)
  have post: "savePost ?post noon empty_disk = (True, snd (savePost ?post noon empty_disk))"
    by (simp add: savePost_def writeJsonFile_def empty_disk_def Let_def)
  have writable: "\<not> read_only (snd (saveSession ?session noon empty_disk))
      (SESSIONS_DIR, template (str ''s1'') @ ''.json'')"
    by (simp add: saveSession_def writeJsonFile_def empty_disk_def)
  note round_trip = store_round_trip [where v = ?session and u = ?user and p = ?post
      and k = "str ''s1''" and clk = noon]
  from round_trip [where d = empty_disk and d' = "snd (saveSession ?session noon empty_disk)"]
    round_trip [where d = empty_disk and d' = "snd (writeJsonFile (USERS_DIR, ''42.json'')
        [(''fid'', Prim (Num 42)), (''username'', str ''alice''),
         (''updatedAt'', str ''2025-01-01T12:00:00.000Z'')] empty_disk)"]
    round_trip [where d = empty_disk and d' = "snd (savePost ?post noon empty_disk)"]
    round_trip [where d = "snd (saveSession ?session noon empty_disk)"
      and d' = "snd (saveSession ?session noon empty_disk)"]
  show ?thesis
    using session user post writable
    by (simp add: noon_def get_def show_int_def number_text_def digits.simps set_field_def is_index_def)
qed

text \<open>
  Against C9 as stated: the record read back after \<^verbatim>\<open>savePost\<close> is not the post with an
  \<^verbatim>\<open>updatedAt\<close> field; it has \<^verbatim>\<open>id\<close>, \<^verbatim>\<open>createdAt\<close> and \<^verbatim>\<open>timestamp\<close> added and no
  \<^verbatim>\<open>updatedAt\<close>.
\<close>

theorem store_round_trip_counterexample:
  "readJsonFile (POSTS_DIR, ''1735732800000_0xabc.json'')
     (snd (savePost [(''hash'', str ''0xabc''), (''text'', str ''hello'')] noon empty_disk))
   = Obj [(''hash'', str ''0xabc''), (''text'', str ''hello''),
          (''id'', str ''1735732800000_0xabc''),
          (''createdAt'', str ''2025-01-01T12:00:00.000Z''),
          (''timestamp'', Prim (Num 1735732800000))]
   \<and> read_prop (readJsonFile (POSTS_DIR, ''1735732800000_0xabc.json'')
        (snd (savePost [(''hash'', str ''0xabc''), (''text'', str ''hello'')] noon empty_disk)))
        ''updatedAt'' = undefined_val"
  by (simp add: savePost_def writeJsonFile_def readJsonFile_def empty_disk_def noon_def get_def
      show_int_def number_text_def digits.simps set_field_def is_index_def Let_def)


end
